theory Spec2Isabelle
  imports Complex_Main "HOL-Library.AList" "HOL-Library.Log_Nat"
begin

section \<open>Quality tiers (quality-manager.ts)\<close>

text \<open>
  The numbers of the catalog are whole numbers and are only read and compared, so they
  are rationals. The type \<open>VideoQuality\<close> is a union of string literals that is erased at
  run time, so a quality name is a string and names outside the catalog exist.
\<close>

type_synonym VideoQuality = string

record Resolution =
  width :: rat
  height :: rat

record QualityTier =
  name :: VideoQuality
  resolution :: Resolution
  frameRate :: rat
  videoBitrate :: rat
  audioBitrate :: rat
  totalBandwidth :: rat

definition QUALITY_TIERS :: "QualityTier list" where
  "QUALITY_TIERS =
    [ \<lparr> name = ''1080p'', resolution = \<lparr> width = 1920, height = 1080 \<rparr>, frameRate = 30,
        videoBitrate = 2000, audioBitrate = 328, totalBandwidth = 2328 \<rparr>,
      \<lparr> name = ''720p'', resolution = \<lparr> width = 1280, height = 720 \<rparr>, frameRate = 30,
        videoBitrate = 1200, audioBitrate = 256, totalBandwidth = 1456 \<rparr>,
      \<lparr> name = ''480p'', resolution = \<lparr> width = 854, height = 480 \<rparr>, frameRate = 25,
        videoBitrate = 800, audioBitrate = 192, totalBandwidth = 992 \<rparr>,
      \<lparr> name = ''240p'', resolution = \<lparr> width = 426, height = 240 \<rparr>, frameRate = 20,
        videoBitrate = 400, audioBitrate = 128, totalBandwidth = 528 \<rparr>,
      \<lparr> name = ''144p'', resolution = \<lparr> width = 256, height = 144 \<rparr>, frameRate = 15,
        videoBitrate = 150, audioBitrate = 96, totalBandwidth = 246 \<rparr>,
      \<lparr> name = ''audio-only'', resolution = \<lparr> width = 0, height = 0 \<rparr>, frameRate = 0,
        videoBitrate = 0, audioBitrate = 64, totalBandwidth = 64 \<rparr> ]"

section \<open>Numbers\<close>

text \<open>
  A bandwidth sample is a \<open>number\<close>: an IEEE 754 double, that is a finite value, an
  infinity or NaN. The manager adds samples, divides the sum by the window length,
  multiplies by the literal \<open>0.8\<close> and compares with \<open>>=\<close>; each operation gives the
  exact result rounded to the nearest double, ties to the even mantissa. The sign of a
  zero is not kept: none of these operations can tell the two zeros apart.
\<close>

datatype number = Finite rat | PosInfinity | NegInfinity | NaN

text \<open>The nearest integer, a tie going to the even one.\<close>

definition roundHalfEven :: "rat \<Rightarrow> int" where
  "roundHalfEven x =
    (let f = \<lfloor>x\<rfloor>; d = x - of_int f
     in if d < 1 / 2 then f else if d > 1 / 2 then f + 1 else if even f then f else f + 1)"

text \<open>The binary exponent of a rational other than 0: \<open>2 powi e \<le> \<bar>x\<bar> < 2 powi (e + 1)\<close>.\<close>

definition expo :: "rat \<Rightarrow> int" where
  "expo x =
    (let (p, q) = quotient_of \<bar>x\<bar>; d = bitlen p - bitlen q
     in if 2 powi d \<le> \<bar>x\<bar> then d else d - 1)"

text \<open>
  Rounding to binary64: 53 bits of mantissa, the exponent at least -1022 (below that
  the spacing stays \<open>2 powi (-1074)\<close>), and an infinity when the rounded magnitude reaches
  \<open>2 powi 1024\<close>.
\<close>

definition round64 :: "rat \<Rightarrow> number" where
  "round64 x =
    (if x = 0 then Finite 0
     else let e = max (expo x) (- 1022);
              ulp = 2 powi (e - 52);
              y = of_int (roundHalfEven (x / ulp)) * ulp
          in if \<bar>y\<bar> \<ge> 2 powi 1024 then (if x > 0 then PosInfinity else NegInfinity)
             else Finite y)"

text \<open>\<open>x + y\<close>\<close>

fun fadd :: "number \<Rightarrow> number \<Rightarrow> number" where
  "fadd (Finite a) (Finite b) = round64 (a + b)"
| "fadd NaN y = NaN"
| "fadd x NaN = NaN"
| "fadd PosInfinity NegInfinity = NaN"
| "fadd NegInfinity PosInfinity = NaN"
| "fadd PosInfinity y = PosInfinity"
| "fadd NegInfinity y = NegInfinity"
| "fadd x PosInfinity = PosInfinity"
| "fadd x NegInfinity = NegInfinity"

text \<open>\<open>x / n\<close> for the length \<open>n\<close> of a list that is not empty.\<close>

fun fdivNat :: "number \<Rightarrow> nat \<Rightarrow> number" where
  "fdivNat (Finite a) n = round64 (a / of_nat n)"
| "fdivNat x n = x"

text \<open>The double that the literal \<open>0.8\<close> denotes.\<close>

definition d08 :: rat where
  "d08 = 3602879701896397 / 4503599627370496"

text \<open>\<open>x * 0.8\<close>\<close>

fun fmul08 :: "number \<Rightarrow> number" where
  "fmul08 (Finite a) = round64 (a * d08)"
| "fmul08 x = x"

text \<open>\<open>x >= t\<close> for a number \<open>t\<close> of the catalog.\<close>

fun geq :: "number \<Rightarrow> rat \<Rightarrow> bool" where
  "geq (Finite a) t = (a \<ge> t)"
| "geq PosInfinity t = True"
| "geq NegInfinity t = False"
| "geq NaN t = False"

section \<open>The quality manager\<close>

text \<open>
  The fields of the class, and \<open>emitted\<close>: the arguments of the calls of the overridable
  hook \<open>onQualityChange\<close>, oldest first. \<open>stabilizationTimer\<close> holds the handle that
  \<open>setTimeout\<close> returned (\<open>null\<close> is \<open>None\<close>).
\<close>

record QualityManager =
  currentTier :: QualityTier
  bandwidthHistory :: "number list"
  stabilizationTimer :: "nat option"
  emitted :: "QualityTier list"

definition onQualityChange :: "QualityTier \<Rightarrow> QualityManager \<Rightarrow> QualityManager" where
  "onQualityChange tier q = q\<lparr> emitted := emitted q @ [tier] \<rparr>"

text \<open>\<open>QUALITY_TIERS.find(tier => tier.name === initialQuality) || QUALITY_TIERS[1]\<close>\<close>

definition newQualityManager :: "VideoQuality \<Rightarrow> QualityManager" where
  "newQualityManager initialQuality =
    \<lparr> currentTier =
        (case find (\<lambda>tier. name tier = initialQuality) QUALITY_TIERS of
           Some tier \<Rightarrow> tier
         | None \<Rightarrow> QUALITY_TIERS ! 1),
      bandwidthHistory = [],
      stabilizationTimer = None,
      emitted = [] \<rparr>"

text \<open>\<open>reduce((sum, bw) => sum + bw, 0) / length\<close>, and 0 on an empty history.\<close>

definition getAverageBandwidth :: "QualityManager \<Rightarrow> number" where
  "getAverageBandwidth q =
    (if length (bandwidthHistory q) = 0 then Finite 0
     else fdivNat (foldl (\<lambda>sum bw. fadd sum bw) (Finite 0) (bandwidthHistory q))
            (length (bandwidthHistory q)))"

text \<open>The \<open>for (const tier of QUALITY_TIERS)\<close> loop with its early return.\<close>

fun scanTiers :: "number \<Rightarrow> QualityTier list \<Rightarrow> QualityTier option" where
  "scanTiers bufferedBandwidth [] = None"
| "scanTiers bufferedBandwidth (tier # rest) =
     (if geq bufferedBandwidth (totalBandwidth tier) then Some tier
      else scanTiers bufferedBandwidth rest)"

definition getRecommendedTier :: "number \<Rightarrow> QualityTier" where
  "getRecommendedTier bandwidth =
    (let bufferedBandwidth = fmul08 bandwidth in
     case scanTiers bufferedBandwidth QUALITY_TIERS of
       Some tier \<Rightarrow> tier
     | None \<Rightarrow> QUALITY_TIERS ! (length QUALITY_TIERS - 1))"

definition adjustQuality :: "QualityManager \<Rightarrow> QualityManager" where
  "adjustQuality q =
    (let averageBandwidth = getAverageBandwidth q;
         recommendedTier = getRecommendedTier averageBandwidth
     in if name recommendedTier \<noteq> name (currentTier q)
        then onQualityChange recommendedTier (q\<lparr> currentTier := recommendedTier \<rparr>)
        else q)"

definition getCurrentTier :: "QualityManager \<Rightarrow> QualityTier" where
  "getCurrentTier q = currentTier q"

text \<open>
  \<open>QUALITY_TIERS.find(t => t.name === quality)\<close>; when no tier has the name, \<open>find\<close>
  gives \<open>undefined\<close> and the body of the \<open>if (tier)\<close> is skipped.
\<close>

definition setQuality :: "VideoQuality \<Rightarrow> QualityManager \<Rightarrow> QualityManager" where
  "setQuality quality q =
    (case find (\<lambda>t. name t = quality) QUALITY_TIERS of
       Some tier \<Rightarrow> onQualityChange tier (q\<lparr> currentTier := tier \<rparr>)
     | None \<Rightarrow> q)"

text \<open>The rows of the catalog as (width, height, fps, video, audio, total).\<close>

definition tierRow :: "QualityTier \<Rightarrow> rat \<times> rat \<times> rat \<times> rat \<times> rat \<times> rat" where
  "tierRow t = (width (resolution t), height (resolution t), frameRate t,
                videoBitrate t, audioBitrate t, totalBandwidth t)"

section \<open>The stabilization timer\<close>

text \<open>
  \<open>updateBandwidth\<close> calls \<open>clearTimeout\<close> and \<open>setTimeout\<close> of the host. The host's timer
  table is part of the state: a clock in milliseconds, the next handle, and the pending
  one-shot timers as (handle, due time). Handles are positive, as in browsers, so a
  handle is truthy. The only callback the manager ever registers is
  \<open>() => this.adjustQuality()\<close>, so a pending timer needs no closure.
\<close>

record Timers =
  clock :: nat
  nextHandle :: nat
  pending :: "(nat \<times> nat) list"

definition setTimeout :: "nat \<Rightarrow> Timers \<Rightarrow> nat \<times> Timers" where
  "setTimeout delay ts =
    (nextHandle ts,
     ts\<lparr> nextHandle := nextHandle ts + 1,
         pending := pending ts @ [(nextHandle ts, clock ts + delay)] \<rparr>)"

definition clearTimeout :: "nat \<Rightarrow> Timers \<Rightarrow> Timers" where
  "clearTimeout h ts = ts\<lparr> pending := filter (\<lambda>(i, due). i \<noteq> h) (pending ts) \<rparr>"

text \<open>
  A manager together with the host's timers. \<open>evaluations\<close> lists the clock values at
  which the timer callback ran, \<open>commits\<close> those at which the callback changed the tier
  (it called \<open>onQualityChange\<close>).
\<close>

record Session =
  manager :: QualityManager
  timers :: Timers
  evaluations :: "nat list"
  commits :: "nat list"

definition newSession :: "nat \<Rightarrow> VideoQuality \<Rightarrow> Session" where
  "newSession t0 initialQuality =
    \<lparr> manager = newQualityManager initialQuality,
      timers = \<lparr> clock = t0, nextHandle = 1, pending = [] \<rparr>,
      evaluations = [],
      commits = [] \<rparr>"

text \<open>
  \<open>push\<close>, then \<open>shift\<close> when the length exceeds 10; \<open>clearTimeout\<close> when the stored
  handle is truthy; \<open>setTimeout(..., 2000)\<close>, whose handle is stored.
\<close>

definition updateBandwidth :: "number \<Rightarrow> Session \<Rightarrow> Session" where
  "updateBandwidth bandwidth s =
    (let q = manager s;
         pushed = bandwidthHistory q @ [bandwidth];
         history = (if length pushed > 10 then tl pushed else pushed);
         cleared = (case stabilizationTimer q of
                      Some h \<Rightarrow> if h \<noteq> 0 then clearTimeout h (timers s) else timers s
                    | None \<Rightarrow> timers s);
         (h, ts) = setTimeout 2000 cleared
     in s\<lparr> manager := q\<lparr> bandwidthHistory := history, stabilizationTimer := Some h \<rparr>,
           timers := ts \<rparr>)"

text \<open>
  The host runs the callback of a pending timer that is due: never before its due time,
  possibly later. The timer leaves the table and the callback, \<open>adjustQuality\<close>, runs.
  With no timer due nothing happens.
\<close>

definition fire :: "Session \<Rightarrow> Session" where
  "fire s =
    (case find (\<lambda>(h, due). due \<le> clock (timers s)) (pending (timers s)) of
       None \<Rightarrow> s
     | Some (h, due) \<Rightarrow>
         (let q = adjustQuality (manager s) in
          s\<lparr> manager := q,
              timers := clearTimeout h (timers s),
              evaluations := evaluations s @ [clock (timers s)],
              commits := (if emitted q \<noteq> emitted (manager s)
                          then commits s @ [clock (timers s)] else commits s) \<rparr>))"

definition advance :: "nat \<Rightarrow> Session \<Rightarrow> Session" where
  "advance dt s = s\<lparr> timers := (timers s)\<lparr> clock := clock (timers s) + dt \<rparr> \<rparr>"

text \<open>
  What can happen to a manager: a call of \<open>updateBandwidth\<close> or \<open>setQuality\<close>, time
  passing, and the host running a due timer.
\<close>

datatype event = UpdateBandwidth number | SetQuality VideoQuality | Advance nat | Fire

fun step :: "event \<Rightarrow> Session \<Rightarrow> Session" where
  "step (UpdateBandwidth bandwidth) s = updateBandwidth bandwidth s"
| "step (SetQuality quality) s = s\<lparr> manager := setQuality quality (manager s) \<rparr>"
| "step (Advance dt) s = advance dt s"
| "step Fire s = fire s"

fun run :: "event list \<Rightarrow> Session \<Rightarrow> Session" where
  "run [] s = s"
| "run (e # es) s = run es (step e s)"

text \<open>The invariant of a session that the proofs carry along a run.\<close>

definition debounced :: "Session \<Rightarrow> bool" where
  "debounced s \<longleftrightarrow>
     length (pending (timers s)) \<le> 1
   \<and> (\<forall>(h, due) \<in> set (pending (timers s)).
         stabilizationTimer (manager s) = Some h \<and> 0 < h
       \<and> (\<forall>e \<in> set (evaluations s). e + 2000 \<le> due))
   \<and> 0 < nextHandle (timers s)
   \<and> (\<forall>e \<in> set (evaluations s). e \<le> clock (timers s))
   \<and> sorted_wrt (\<lambda>a b. a + 2000 \<le> b) (evaluations s)
   \<and> set (commits s) \<subseteq> set (evaluations s)
   \<and> sorted_wrt (\<lambda>a b. a + 2000 \<le> b) (commits s)
   \<and> length (bandwidthHistory (manager s)) \<le> 10
   \<and> currentTier (manager s) \<in> set QUALITY_TIERS"

section \<open>The session engine (webrtc.ts)\<close>

record WebRTCConfig =
  stunServers :: "string list"
  turnServers :: "string list option"
  maxPeers :: int

text \<open>A media stream is the list of its video tracks and the list of its audio tracks.\<close>

record MediaStream =
  videoTracks :: "nat list"
  audioTracks :: "nat list"

text \<open>
  The constraints the engine asks for: \<open>video: false\<close>, or ideal width, height and frame
  rate; and the \<open>audio\<close> flag.
\<close>

datatype VideoConstraint = NoVideo | IdealVideo rat rat rat

record MediaStreamConstraints =
  video :: VideoConstraint
  audio :: bool

text \<open>
  An instance of the peer library, as far as the engine reads it: the \<open>connected\<close>
  property, whether \<open>destroy\<close> was called, and \<open>owner\<close>, the identifier that the handlers
  attached by \<open>setupPeerEventHandlers\<close> close over. Instances live in a store and are
  named by their index, because the sampler's closure keeps the connection object alive
  after it has left the peer table.
\<close>

record SimplePeer =
  connected' :: bool
  destroyed :: bool
  owner :: string

record PeerConnection =
  id' :: string
  peer :: nat
  stream :: "MediaStream option"
  isHost :: bool
  peerQuality :: VideoQuality

text \<open>
  A stats object is a list of named numbers; a missing property reads \<open>undefined\<close>.
  The engine and the page only pass these numbers on, compare them and test them for
  being falsy, so a finite number is a rational here.
\<close>

type_synonym Stats = "(string \<times> rat) list"

text \<open>The calls of the overridable hooks, as events.\<close>

datatype Event =
    LocalStreamReady MediaStream
  | PeerConnected string
  | PeerDisconnected string
  | ConnectionStatsUpdate string Stats

text \<open>
  The first five fields are the fields of the class (the audio processor is a
  collaborator and is left out). The others are what the engine acts on outside itself:
  the store of peer instances, the host's pending \<open>setInterval\<close> timers as (handle,
  captured peer identifier, captured connection's instance), the constraints of every
  \<open>getUserMedia\<close> call, the events emitted, and for every run of a sampler callback its
  handle, its connection's instance and whether it emitted a stats event.
\<close>

record WebRTCManager =
  peers :: "(string \<times> PeerConnection) list"
  localStream :: "MediaStream option"
  qualityManager :: QualityManager
  config :: WebRTCConfig
  isInitialized :: bool
  instances :: "nat \<Rightarrow> SimplePeer"
  nextInstance :: nat
  intervals :: "(nat \<times> string \<times> nat) list"
  nextInterval :: nat
  requests :: "MediaStreamConstraints list"
  events :: "Event list"
  samplerLog :: "(nat \<times> nat \<times> bool) list"

definition newWebRTCManager :: "WebRTCConfig \<Rightarrow> WebRTCManager" where
  "newWebRTCManager cfg =
    \<lparr> peers = [], localStream = None, qualityManager = newQualityManager ''720p'',
      config = cfg, isInitialized = False,
      instances = (\<lambda>_. \<lparr> connected' = False, destroyed = False, owner = [] \<rparr>),
      nextInstance = 0, intervals = [], nextInterval = 1, requests = [], events = [],
      samplerLog = [] \<rparr>"

definition getConstraints :: "QualityManager \<Rightarrow> MediaStreamConstraints" where
  "getConstraints q =
    (let tier = currentTier q in
     if name tier = ''audio-only'' then \<lparr> video = NoVideo, audio = True \<rparr>
     else \<lparr> video = IdealVideo (width (resolution tier)) (height (resolution tier))
                     (frameRate tier),
            audio = True \<rparr>)"

definition onLocalStreamReady :: "MediaStream \<Rightarrow> WebRTCManager \<Rightarrow> WebRTCManager" where
  "onLocalStreamReady s m = m\<lparr> events := events m @ [LocalStreamReady s] \<rparr>"

text \<open>
  The capture device: the answer of the n-th \<open>getUserMedia\<close> call to its constraints, a
  rejection with an error name or a stream.
\<close>

type_synonym Device = "nat \<Rightarrow> MediaStreamConstraints \<Rightarrow> string + MediaStream"

text \<open>
  \<open>setupLocalStream\<close>: the \<open>try\<close>, the \<open>catch\<close> with the audio-only request, and the inner
  \<open>catch\<close> that rethrows. \<open>Inl\<close> is the error thrown, with the state it leaves.
\<close>

definition setupLocalStream ::
  "Device \<Rightarrow> WebRTCManager \<Rightarrow> (string \<times> WebRTCManager) + WebRTCManager" where
  "setupLocalStream getUserMedia m =
    (let constraints = getConstraints (qualityManager m);
         m1 = m\<lparr> requests := requests m @ [constraints] \<rparr>
     in case getUserMedia (length (requests m)) constraints of
          Inr s \<Rightarrow> Inr (onLocalStreamReady s (m1\<lparr> localStream := Some s \<rparr>))
        | Inl error \<Rightarrow>
            (let fallback = \<lparr> video = NoVideo, audio = True \<rparr>;
                 m2 = m1\<lparr> requests := requests m1 @ [fallback] \<rparr>
             in case getUserMedia (length (requests m1)) fallback of
                  Inr s \<Rightarrow>
                    Inr (onLocalStreamReady s
                          (m2\<lparr> localStream := Some s,
                               qualityManager := setQuality ''audio-only'' (qualityManager m2) \<rparr>))
                | Inl fallbackError \<Rightarrow> Inl (fallbackError, m2)))"

text \<open>\<open>peer.destroy()\<close> of the library: the instance is closed for good.\<close>

definition destroy :: "SimplePeer \<Rightarrow> SimplePeer" where
  "destroy p = p\<lparr> connected' := False, destroyed := True \<rparr>"

text \<open>\<open>removePeer\<close>: \<open>destroy\<close> and \<open>peers.delete\<close>. No timer is touched.\<close>

definition removePeer :: "string \<Rightarrow> WebRTCManager \<Rightarrow> WebRTCManager" where
  "removePeer peerId m =
    (case map_of (peers m) peerId of
       Some connection \<Rightarrow>
         m\<lparr> instances := (instances m)(peer connection := destroy (instances m (peer connection))),
            peers := AList.delete peerId (peers m) \<rparr>
     | None \<Rightarrow> m)"

text \<open>
  \<open>createPeer\<close>: a prior entry of the identifier is removed, a new instance is made and
  the connection is stored under the identifier. \<open>config.maxPeers\<close> is not read, and the
  method has no \<open>throw\<close>.
\<close>

definition createPeer :: "string \<Rightarrow> bool \<Rightarrow> WebRTCManager \<Rightarrow> WebRTCManager" where
  "createPeer peerId isInitiator m0 =
    (let m = (if map_of (peers m0) peerId \<noteq> None then removePeer peerId m0 else m0);
         r = nextInstance m;
         m1 = m\<lparr> instances := (instances m)
                     (r := \<lparr> connected' = False, destroyed = False, owner = peerId \<rparr>),
                 nextInstance := r + 1 \<rparr>;
         connection = \<lparr> id' = peerId, peer = r, stream = None, isHost = isInitiator,
                        peerQuality = name (getCurrentTier (qualityManager m1)) \<rparr>
     in m1\<lparr> peers := AList.update peerId connection (peers m1) \<rparr>)"

text \<open>\<open>getConnectionStats\<close> returns the same object for every peer.\<close>

definition getConnectionStats :: Stats where
  "getConnectionStats =
    [(''bytesReceived'', 0), (''bytesSent'', 0), (''packetsLost'', 0), (''jitter'', 0),
     (''rtt'', 0)]"

text \<open>
  \<open>startConnectionMonitoring\<close> registers an interval whose callback closes over the
  identifier and the connection found in the table.
\<close>

definition startConnectionMonitoring :: "string \<Rightarrow> WebRTCManager \<Rightarrow> WebRTCManager" where
  "startConnectionMonitoring peerId m =
    (case map_of (peers m) peerId of
       None \<Rightarrow> m
     | Some connection \<Rightarrow>
         m\<lparr> intervals := intervals m @ [(nextInterval m, peerId, peer connection)],
            nextInterval := nextInterval m + 1 \<rparr>)"

text \<open>
  One run of the interval callback with handle \<open>h\<close>, if that interval is still pending:
  when the connection's peer is not connected the callback clears its own interval and
  returns, otherwise it emits the stats event. \<open>getConnectionStats\<close> resolves at once
  and never rejects, so the callback runs as one step and its \<open>catch\<close> is never entered.
\<close>

definition samplerTick :: "nat \<Rightarrow> WebRTCManager \<Rightarrow> WebRTCManager" where
  "samplerTick h m =
    (case map_of (intervals m) h of
       None \<Rightarrow> m
     | Some (peerId, r) \<Rightarrow>
         if \<not> connected' (instances m r)
         then m\<lparr> intervals := AList.delete h (intervals m),
                 samplerLog := samplerLog m @ [(h, r, False)] \<rparr>
         else m\<lparr> events := events m @ [ConnectionStatsUpdate peerId getConnectionStats],
                 samplerLog := samplerLog m @ [(h, r, True)] \<rparr>)"

text \<open>
  The library's \<open>connect\<close> event on an instance, with the handler of
  \<open>setupPeerEventHandlers\<close>: \<open>onPeerConnected\<close>, then \<open>startConnectionMonitoring\<close>. A
  destroyed instance emits no \<open>connect\<close>.
\<close>

definition peerConnect :: "nat \<Rightarrow> WebRTCManager \<Rightarrow> WebRTCManager" where
  "peerConnect r m =
    (if r < nextInstance m \<and> \<not> destroyed (instances m r)
     then startConnectionMonitoring (owner (instances m r))
            (m\<lparr> instances := (instances m)(r := (instances m r)\<lparr> connected' := True \<rparr>),
                events := events m @ [PeerConnected (owner (instances m r))] \<rparr>)
     else m)"

text \<open>
  The library's \<open>close\<close> event on an instance, with its handler: \<open>removePeer\<close>, then
  \<open>onPeerDisconnected\<close>.
\<close>

definition peerClose :: "nat \<Rightarrow> WebRTCManager \<Rightarrow> WebRTCManager" where
  "peerClose r m =
    (if r < nextInstance m
     then (let m1 = removePeer (owner (instances m r))
                      (m\<lparr> instances := (instances m)(r := destroy (instances m r)) \<rparr>)
           in m1\<lparr> events := events m1 @ [PeerDisconnected (owner (instances m r))] \<rparr>)
     else m)"

datatype action =
    CreatePeer string bool
  | RemovePeer string
  | Connect nat
  | Close nat
  | Tick nat

fun act :: "action \<Rightarrow> WebRTCManager \<Rightarrow> WebRTCManager" where
  "act (CreatePeer peerId isInitiator) m = createPeer peerId isInitiator m"
| "act (RemovePeer peerId) m = removePeer peerId m"
| "act (Connect r) m = peerConnect r m"
| "act (Close r) m = peerClose r m"
| "act (Tick h) m = samplerTick h m"

fun exec :: "action list \<Rightarrow> WebRTCManager \<Rightarrow> WebRTCManager" where
  "exec [] m = m"
| "exec (a # as) m = exec as (act a m)"

text \<open>
  \<open>restartVideoStream\<close>: a new \<open>getUserMedia\<close> request with the constraints of the current
  tier. The first video track of the new stream is added to the local stream; a
  rejection is caught and logged. What \<open>replaceTrack\<close> does to the connected peers
  happens inside the peer library and is not part of this state; an error it throws is
  caught by the same \<open>catch\<close>, after the track was added. The device's answer, which
  the method awaits, is taken in the same step.
\<close>

definition restartVideoStream :: "Device \<Rightarrow> WebRTCManager \<Rightarrow> WebRTCManager" where
  "restartVideoStream getUserMedia m =
    (let constraints = getConstraints (qualityManager m);
         m1 = m\<lparr> requests := requests m @ [constraints] \<rparr>
     in case getUserMedia (length (requests m)) constraints of
          Inl error \<Rightarrow> m1
        | Inr newStream \<Rightarrow>
            (case videoTracks newStream of
               [] \<Rightarrow> m1
             | videoTrack # others \<Rightarrow>
                 m1\<lparr> localStream :=
                       map_option (\<lambda>s. s\<lparr> videoTracks := videoTracks s @ [videoTrack] \<rparr>)
                         (localStream m1) \<rparr>))"

text \<open>
  The engine with the host's timer table, on which its quality manager sets the
  stabilization timer. The manager and the timers form a session; its two logs are not
  kept here.
\<close>

record Engine =
  webrtc :: WebRTCManager
  host :: Timers

definition qualitySession :: "Engine \<Rightarrow> Session" where
  "qualitySession e =
    \<lparr> manager = qualityManager (webrtc e), timers = host e, evaluations = [], commits = [] \<rparr>"

definition withQualitySession :: "Session \<Rightarrow> Engine \<Rightarrow> Engine" where
  "withQualitySession s e =
    e\<lparr> webrtc := (webrtc e)\<lparr> qualityManager := manager s \<rparr>, host := timers s \<rparr>"

text \<open>
  \<open>WebRTCManager.adjustQuality\<close>: the sample goes to \<open>updateBandwidth\<close>; then, with the
  tier that is current at that moment, the video tracks are removed for audio-only, or
  the video is restarted when the stream has no video track, or the constraints of the
  tier are applied to the existing track. Stopping a track and applying constraints
  change only the track, which this state does not describe.
\<close>

definition adjustQualityWebRTC :: "Device \<Rightarrow> number \<Rightarrow> Engine \<Rightarrow> Engine" where
  "adjustQualityWebRTC getUserMedia bandwidth e0 =
    (let e = withQualitySession (updateBandwidth bandwidth (qualitySession e0)) e0;
         newTier = getCurrentTier (qualityManager (webrtc e))
     in case localStream (webrtc e) of
          None \<Rightarrow> e
        | Some s \<Rightarrow>
            if name newTier = ''audio-only''
            then e\<lparr> webrtc := (webrtc e)\<lparr> localStream := Some (s\<lparr> videoTracks := [] \<rparr>) \<rparr> \<rparr>
            else if length (videoTracks s) = 0 \<and> name newTier \<noteq> ''audio-only''
            then e\<lparr> webrtc := restartVideoStream getUserMedia (webrtc e) \<rparr>
            else e)"

text \<open>Time passing, and the host running the stabilization timer when it is due.\<close>

definition timePasses :: "nat \<Rightarrow> Engine \<Rightarrow> Engine" where
  "timePasses dt e = withQualitySession (advance dt (qualitySession e)) e"

definition timerFires :: "Engine \<Rightarrow> Engine" where
  "timerFires e = withQualitySession (fire (qualitySession e)) e"

text \<open>Every connection in the table names an instance that exists.\<close>

definition wellFormed :: "WebRTCManager \<Rightarrow> bool" where
  "wellFormed m \<longleftrightarrow> (\<forall>(k, c) \<in> set (peers m). peer c < nextInstance m)"

text \<open>An instance that was destroyed.\<close>

definition dead :: "nat \<Rightarrow> WebRTCManager \<Rightarrow> bool" where
  "dead r m \<longleftrightarrow>
     r < nextInstance m \<and> destroyed (instances m r) \<and> \<not> connected' (instances m r)"

text \<open>The sampler runs of the connection with instance \<open>r\<close> that emitted a stats event.\<close>

definition emittedBy :: "nat \<Rightarrow> WebRTCManager \<Rightarrow> (nat \<times> nat \<times> bool) list" where
  "emittedBy r m = filter (\<lambda>(h, r', e). r' = r \<and> e) (samplerLog m)"

section \<open>The room page (page.tsx)\<close>

record ConnectionStats =
  bandwidth :: rat
  latency :: rat
  quality :: string

text \<open>\<open>v || d\<close> on a number that may be \<open>undefined\<close>: \<open>undefined\<close> and 0 are falsy.\<close>

definition orElse :: "rat option \<Rightarrow> rat \<Rightarrow> rat" where
  "orElse v d = (case v of None \<Rightarrow> d | Some x \<Rightarrow> if x = 0 then d else x)"

text \<open>\<open>v > c\<close> on a number that may be \<open>undefined\<close>: false on \<open>undefined\<close>.\<close>

definition exceeds :: "rat option \<Rightarrow> rat \<Rightarrow> bool" where
  "exceeds v c = (case v of None \<Rightarrow> False | Some x \<Rightarrow> x > c)"

text \<open>
  The page's override of the hook: the new \<open>connectionStats\<close> state. The peer
  identifier is not used.
\<close>

definition onConnectionStatsUpdate :: "string \<Rightarrow> Stats \<Rightarrow> ConnectionStats" where
  "onConnectionStatsUpdate peerId stats =
    \<lparr> bandwidth = orElse (map_of stats ''bandwidth'') 1000,
      latency = orElse (map_of stats ''latency'') 50,
      quality = (if exceeds (map_of stats ''bandwidth'') 1000 then ''excellent''
                 else if exceeds (map_of stats ''bandwidth'') 500 then ''good''
                 else ''poor'') \<rparr>"

text \<open>
  The state of the page and the arguments of its calls of \<open>webrtcManager.adjustQuality\<close>,
  oldest first. That method passes its argument on to \<open>updateBandwidth\<close> unchanged.
\<close>

record RoomPage =
  connectionStats :: ConnectionStats
  adjustQualityCalls :: "rat list"

definition initialPage :: RoomPage where
  "initialPage =
    \<lparr> connectionStats = \<lparr> bandwidth = 0, latency = 0, quality = ''good'' \<rparr>,
      adjustQualityCalls = [] \<rparr>"

text \<open>
  One stats report: the handler sets the state, the page renders, and the effect with
  dependency \<open>connectionStats.bandwidth\<close> runs when that value changed; it calls
  \<open>adjustQuality\<close> when the bandwidth is positive. Every report arrives in a timer task
  of its own, so every report is followed by a render.
\<close>

definition renderAfterStats :: "string \<Rightarrow> Stats \<Rightarrow> RoomPage \<Rightarrow> RoomPage" where
  "renderAfterStats peerId stats page =
    (let next = onConnectionStatsUpdate peerId stats
     in page\<lparr> connectionStats := next,
              adjustQualityCalls :=
                (if bandwidth next \<noteq> bandwidth (connectionStats page) \<and> bandwidth next > 0
                 then adjustQualityCalls page @ [bandwidth next]
                 else adjustQualityCalls page) \<rparr>)"

fun reports :: "(string \<times> Stats) list \<Rightarrow> RoomPage \<Rightarrow> RoomPage" where
  "reports [] page = page"
| "reports ((peerId, stats) # rest) page = reports rest (renderAfterStats peerId stats page)"

section \<open>Concrete sessions\<close>

definition cfg2 :: WebRTCConfig where
  "cfg2 = \<lparr> stunServers = [''stun:stun.l.google.com:19302''], turnServers = None,
            maxPeers = 2 \<rparr>"

text \<open>A mesh that holds \<open>maxPeers\<close> connections.\<close>

definition atCapacity :: WebRTCManager where
  "atCapacity = exec [CreatePeer ''a'' True, CreatePeer ''b'' False] (newWebRTCManager cfg2)"

text \<open>A mesh with one connected peer, whose sampler is running.\<close>

definition monitored :: WebRTCManager where
  "monitored = exec [CreatePeer ''a'' True, Connect 0] (newWebRTCManager cfg2)"

text \<open>A device that refuses the camera and grants the microphone.\<close>

definition cameraDenied :: Device where
  "cameraDenied n c =
    (if video c = NoVideo then Inr \<lparr> videoTracks = [], audioTracks = [1] \<rparr>
     else Inl ''NotAllowedError'')"

text \<open>The engine after its start on that device: it fell back to audio only.\<close>

definition afterFallback :: Engine where
  "afterFallback =
    \<lparr> webrtc = projr (setupLocalStream cameraDenied (newWebRTCManager cfg2)),
      host = \<lparr> clock = 0, nextHandle = 1, pending = [] \<rparr> \<rparr>"

text \<open>
  Then one bandwidth report of 5000 kbps, and 2000 ms later the stabilization timer:
  no tier was selected by hand.
\<close>

definition tierRaised :: Engine where
  "tierRaised =
    timerFires (timePasses 2000 (adjustQualityWebRTC cameraDenied (Finite 5000) afterFallback))"

section \<open>The catalog\<close>

lemma names_QUALITY_TIERS:
  "map name QUALITY_TIERS = [''1080p'', ''720p'', ''480p'', ''240p'', ''144p'', ''audio-only'']"
  by (simp add: QUALITY_TIERS_def)

lemma distinct_names: "distinct (map name QUALITY_TIERS)"
  by (simp add: names_QUALITY_TIERS)

text \<open>
  C5. The catalog holds, from the richest tier to the floor, exactly the six rows of the
  table: 1920x1080 at 30 fps with 2000+328=2328 kbps down to audio-only with 0+64=64
  kbps. Every total is the video bitrate plus the audio bitrate, the totals decrease
  strictly along the catalog, and the last tier is named audio-only, has video bitrate
  0 and no tier has a smaller total.
\<close>

theorem catalog_matches_table:
  "map tierRow QUALITY_TIERS =
     [(1920, 1080, 30, 2000, 328, 2328),
      (1280, 720, 30, 1200, 256, 1456),
      (854, 480, 25, 800, 192, 992),
      (426, 240, 20, 400, 128, 528),
      (256, 144, 15, 150, 96, 246),
      (0, 0, 0, 0, 64, 64)]
   \<and> map totalBandwidth QUALITY_TIERS
       = map (\<lambda>t. videoBitrate t + audioBitrate t) QUALITY_TIERS
   \<and> sorted_wrt (\<lambda>a b. a > b) (map totalBandwidth QUALITY_TIERS)
   \<and> name (last QUALITY_TIERS) = ''audio-only''
   \<and> videoBitrate (last QUALITY_TIERS) = 0
   \<and> Min (set (map totalBandwidth QUALITY_TIERS)) = totalBandwidth (last QUALITY_TIERS)"
  by (simp add: QUALITY_TIERS_def tierRow_def)

section \<open>Rounding\<close>

lemma roundHalfEven_of_int [simp]: "roundHalfEven (of_int i) = i"
  by (simp add: roundHalfEven_def)

lemma expo_bounds:
  assumes "x \<noteq> 0"
  shows "2 powi (expo x) \<le> \<bar>x\<bar> \<and> \<bar>x\<bar> < 2 powi (expo x + 1)"
proof -
  obtain p q where pq: "quotient_of \<bar>x\<bar> = (p, q)" by (cases "quotient_of \<bar>x\<bar>")
  then have q: "0 < q" and x: "\<bar>x\<bar> = of_int p / of_int q"
    by (simp_all add: quotient_of_denom_pos quotient_of_div)
  from assms have "0 < \<bar>x\<bar>" by simp
  with q x have p: "0 < p" by (simp add: zero_less_divide_iff)
  define d where "d = bitlen p - bitlen q"
  from bitlen_bounds[OF p] have p1: "(2::rat) ^ nat (bitlen p - 1) \<le> of_int p"
    and p2: "of_int p < (2::rat) ^ nat (bitlen p)"
    by (metis of_int_le_iff of_int_numeral of_int_power, metis of_int_less_iff of_int_numeral of_int_power)
  from bitlen_bounds[OF q] have q1: "(2::rat) ^ nat (bitlen q - 1) \<le> of_int q"
    and q2: "of_int q < (2::rat) ^ nat (bitlen q)"
    by (metis of_int_le_iff of_int_numeral of_int_power, metis of_int_less_iff of_int_numeral of_int_power)
  have bp: "1 \<le> bitlen p" and bq: "1 \<le> bitlen q"
    using p q bitlen_eq_zero_iff[of p] bitlen_eq_zero_iff[of q] bitlen_nonneg[of p] bitlen_nonneg[of q]
    by linarith+
  have P1: "(2::rat) powi (bitlen p - 1) \<le> of_int p" and P2: "of_int p < (2::rat) powi (bitlen p)"
    using p1 p2 bp by (simp_all add: power_int_def)
  have Q1: "(2::rat) powi (bitlen q - 1) \<le> of_int q" and Q2: "of_int q < (2::rat) powi (bitlen q)"
    using q1 q2 bq by (simp_all add: power_int_def)
  have qpos: "(0::rat) < of_int q" using q by simp
  have upper: "\<bar>x\<bar> < 2 powi (d + 1)"
  proof -
    have "of_int p < (2::rat) powi (bitlen p)" by (rule P2)
    also have "\<dots> = 2 powi (d + 1) * 2 powi (bitlen q - 1)"
      by (simp add: d_def flip: power_int_add)
    also have "\<dots> \<le> 2 powi (d + 1) * of_int q"
      by (intro mult_left_mono Q1) simp
    finally show ?thesis
      using qpos by (simp add: x pos_divide_less_eq)
  qed
  have lower: "2 powi (d - 1) \<le> \<bar>x\<bar>"
  proof -
    have "2 powi (d - 1) * of_int q \<le> 2 powi (d - 1) * (2::rat) powi (bitlen q)"
      using Q2 by (intro mult_left_mono) simp_all
    also have "\<dots> = 2 powi (bitlen p - 1)"
      by (simp add: d_def flip: power_int_add)
    also have "\<dots> \<le> of_int p" by (rule P1)
    finally show ?thesis
      using qpos by (simp add: x pos_le_divide_eq)
  qed
  show ?thesis
  proof (cases "2 powi d \<le> \<bar>x\<bar>")
    case True
    then have "expo x = d" by (simp add: expo_def pq d_def)
    with True upper show ?thesis by simp
  next
    case False
    then have "expo x = d - 1" by (simp add: expo_def pq d_def)
    with False lower show ?thesis by simp
  qed
qed

lemma expo_unique:
  assumes "2 powi e \<le> \<bar>x\<bar>" "\<bar>x\<bar> < 2 powi (e + 1)"
  shows "expo x = e"
proof -
  have "\<not> (2::rat) powi e \<le> 0" by (simp add: not_le)
  with assms(1) have "x \<noteq> 0" by auto
  from expo_bounds[OF this] have b: "2 powi (expo x) \<le> \<bar>x\<bar>" "\<bar>x\<bar> < 2 powi (expo x + 1)"
    by simp_all
  have "\<not> expo x < e"
  proof
    assume "expo x < e"
    then have "(2::rat) powi (expo x + 1) \<le> 2 powi e"
      by (intro power_int_increasing) simp_all
    with b(2) assms(1) show False by simp
  qed
  moreover have "\<not> e < expo x"
  proof
    assume "e < expo x"
    then have "(2::rat) powi (e + 1) \<le> 2 powi (expo x)"
      by (intro power_int_increasing) simp_all
    with b(1) assms(2) show False by simp
  qed
  ultimately show ?thesis by simp
qed

text \<open>Rounding with the exponent given.\<close>

lemma round64_at:
  assumes "2 powi e \<le> \<bar>x\<bar>" "\<bar>x\<bar> < 2 powi (e + 1)" "- 1022 \<le> e"
    and "y = of_int (roundHalfEven (x / 2 powi (e - 52))) * 2 powi (e - 52)"
    and "\<bar>y\<bar> < 2 powi 1024"
  shows "round64 x = Finite y"
proof -
  have "\<not> (2::rat) powi e \<le> 0" by (simp add: not_le)
  with assms(1) have "x \<noteq> 0" by auto
  moreover have "expo x = e" using assms(1,2) by (rule expo_unique)
  ultimately show ?thesis
    using assms(3,4,5) by (simp add: round64_def Let_def max_def)
qed

lemma round64_of_nat:
  assumes "n \<le> 2 ^ 53"
  shows "round64 (of_nat n) = Finite (of_nat n)"
proof (cases "n = 0")
  case True
  then show ?thesis by (simp add: round64_def)
next
  case False
  define x :: rat where "x = of_nat n"
  have x1: "1 \<le> x" and xn: "x \<noteq> 0" and xa: "\<bar>x\<bar> = x" and xle: "x \<le> 2 ^ 53"
    using False assms unfolding x_def
    by (simp_all add: of_nat_le_iff[of n "2 ^ 53", where ?'a = rat, simplified])
  define e where "e = expo x"
  from expo_bounds[OF xn] have lo: "2 powi e \<le> x" and hi: "x < 2 powi (e + 1)"
    by (simp_all add: e_def xa)
  have e0: "0 \<le> e"
  proof (rule ccontr)
    assume "\<not> 0 \<le> e"
    then have "(2::rat) powi (e + 1) \<le> 2 powi 0"
      by (intro power_int_increasing) simp_all
    with hi x1 show False by simp
  qed
  have e53: "e \<le> 53"
  proof (rule ccontr)
    assume "\<not> e \<le> 53"
    then have "(2::rat) powi 54 \<le> 2 powi e"
      by (intro power_int_increasing) simp_all
    with lo xle show False by simp
  qed
  show ?thesis
  proof (cases "e \<le> 52")
    case True
    define k where "k = nat (52 - e)"
    have ulp: "(2::rat) powi (e - 52) = 1 / 2 ^ k"
      using True by (simp add: power_int_def k_def field_simps)
    have "x / 2 powi (e - 52) = of_int (int n * 2 ^ k)"
      by (simp add: ulp x_def)
    then have "roundHalfEven (x / 2 powi (e - 52)) = int n * 2 ^ k"
      by (simp only: roundHalfEven_of_int)
    then have "of_int (roundHalfEven (x / 2 powi (e - 52))) * 2 powi (e - 52) = x"
      by (simp add: ulp x_def)
    moreover have "\<bar>x\<bar> < 2 powi 1024"
      using xle xa by simp
    ultimately have "round64 x = Finite x"
      using lo hi e0 by (intro round64_at[where e = e]) (simp_all add: xa)
    then show ?thesis by (simp add: x_def)
  next
    case False
    with e53 have e: "e = 53" by simp
    with lo xle have x53: "x = 2 ^ 53" by simp
    have "x / 2 powi (e - 52) = of_int (2 ^ 52)"
      by (simp add: e x53)
    then have "roundHalfEven (x / 2 powi (e - 52)) = 2 ^ 52"
      by (simp only: roundHalfEven_of_int)
    then have "of_int (roundHalfEven (x / 2 powi (e - 52))) * 2 powi (e - 52) = x"
      by (simp add: e x53)
    moreover have "\<bar>x\<bar> < 2 powi 1024"
      by (simp add: x53)
    ultimately have "round64 x = Finite x"
      using lo hi e0 by (intro round64_at[where e = e]) (simp_all add: xa)
    then show ?thesis by (simp add: x_def)
  qed
qed

lemma roundHalfEven_near:
  assumes "\<bar>x - of_int k\<bar> < 1 / 2"
  shows "roundHalfEven x = k"
proof (cases "of_int k \<le> x")
  case True
  with assms have "\<lfloor>x\<rfloor> = k" by (intro floor_unique) simp_all
  with True assms show ?thesis by (simp add: roundHalfEven_def)
next
  case False
  with assms have "\<lfloor>x\<rfloor> = k - 1" by (intro floor_unique) simp_all
  with False assms show ?thesis by (simp add: roundHalfEven_def)
qed

text \<open>Rounding with the exponent and the nearest multiple of the unit given.\<close>

lemma round64_near:
  assumes "2 powi e \<le> \<bar>x\<bar>" "\<bar>x\<bar> < 2 powi (e + 1)" "- 1022 \<le> e"
    and "\<bar>x / 2 powi (e - 52) - of_int k\<bar> < 1 / 2"
    and "y = of_int k * 2 powi (e - 52)"
    and "\<bar>y\<bar> < 2 powi 1024"
  shows "round64 x = Finite y"
  using assms(1,2,3) _ assms(6)
  by (rule round64_at) (simp add: assms(5) roundHalfEven_near[OF assms(4)])

lemma roundHalfEven_floor:
  assumes "of_int f \<le> x" "x < of_int f + 1"
  shows "roundHalfEven x =
           (if x - of_int f < 1 / 2 then f
            else if x - of_int f > 1 / 2 then f + 1
            else if even f then f else f + 1)"
proof -
  from assms have "\<lfloor>x\<rfloor> = f" by (rule floor_unique)
  then show ?thesis by (simp add: roundHalfEven_def)
qed

text \<open>Rounding with the exponent and the floor of the scaled value given; it covers ties.\<close>

lemma round64_floor:
  assumes "2 powi e \<le> \<bar>x\<bar>" "\<bar>x\<bar> < 2 powi (e + 1)" "- 1022 \<le> e"
    and "of_int f \<le> x / 2 powi (e - 52)" "x / 2 powi (e - 52) < of_int f + 1"
    and "k = (if x / 2 powi (e - 52) - of_int f < 1 / 2 then f
              else if x / 2 powi (e - 52) - of_int f > 1 / 2 then f + 1
              else if even f then f else f + 1)"
    and "y = of_int k * 2 powi (e - 52)"
    and "\<bar>y\<bar> < 2 powi 1024"
  shows "round64 x = Finite y"
  using assms(1,2,3) _ assms(8)
  by (rule round64_at) (simp only: assms(7) assms(6) roundHalfEven_floor[OF assms(4,5)])


lemma buffered_100: "round64 (100 * d08) = Finite 80"
  by (rule round64_near[where e = 6 and k = "80 * 2 ^ 46"]) (simp_all add: d08_def)

lemma buffered_5000: "round64 (5000 * d08) = Finite 4000"
  by (rule round64_near[where e = 11 and k = "4000 * 2 ^ 41"]) (simp_all add: d08_def)

lemma buffered_2550: "round64 (2550 * d08) = Finite 2040"
  by (rule round64_near[where e = 10 and k = "2040 * 2 ^ 42"]) (simp_all add: d08_def)


text \<open>Sums of whole numbers up to \<open>2 ^ 53\<close> are exact.\<close>

lemma foldl_fadd_nat:
  assumes "a + sum_list ns \<le> 2 ^ 53"
  shows "foldl (\<lambda>sum bw. fadd sum bw) (Finite (of_nat a)) (map (\<lambda>n. Finite (of_nat n)) ns)
           = Finite (of_nat (a + sum_list ns))"
  using assms
proof (induction ns arbitrary: a)
  case Nil
  then show ?case by simp
next
  case (Cons n ns)
  from Cons.prems have le: "a + n \<le> 2 ^ 53" and rest: "(a + n) + sum_list ns \<le> 2 ^ 53"
    by simp_all
  have "fadd (Finite (of_nat a)) (Finite (of_nat n)) = Finite (of_nat (a + n))"
    using round64_of_nat[OF le] by simp
  with Cons.IH[OF rest] show ?case by (simp add: add.assoc)
qed

section \<open>Tier selection\<close>

lemma scanTiers_find:
  "scanTiers b ts = find (\<lambda>t. geq b (totalBandwidth t)) ts"
  by (induction ts) auto

lemma find_in_set: "find P xs = Some x \<Longrightarrow> x \<in> set xs"
  by (induction xs) (auto split: if_splits)

lemma getRecommendedTier_in_catalog: "getRecommendedTier bw \<in> set QUALITY_TIERS"
proof (cases "scanTiers (fmul08 bw) QUALITY_TIERS")
  case None
  then show ?thesis
    by (simp add: getRecommendedTier_def) (simp add: QUALITY_TIERS_def)
next
  case (Some t)
  then have "t \<in> set QUALITY_TIERS"
    by (simp add: scanTiers_find find_in_set)
  with Some show ?thesis by (simp add: getRecommendedTier_def)
qed

lemma adjustQuality_in_catalog:
  "currentTier q \<in> set QUALITY_TIERS \<Longrightarrow> currentTier (adjustQuality q) \<in> set QUALITY_TIERS"
  by (simp add: adjustQuality_def Let_def onQualityChange_def getRecommendedTier_in_catalog)

lemma setQuality_in_catalog:
  "currentTier q \<in> set QUALITY_TIERS \<Longrightarrow> currentTier (setQuality n q) \<in> set QUALITY_TIERS"
  by (auto simp: setQuality_def onQualityChange_def find_in_set split: option.splits)

lemma newQualityManager_in_catalog: "currentTier (newQualityManager n) \<in> set QUALITY_TIERS"
proof (cases "find (\<lambda>tier. name tier = n) QUALITY_TIERS")
  case None
  then show ?thesis
    by (simp add: newQualityManager_def) (simp add: QUALITY_TIERS_def)
next
  case (Some t)
  then show ?thesis by (simp add: newQualityManager_def find_in_set)
qed

lemma adjustQuality_frame [simp]:
  "bandwidthHistory (adjustQuality q) = bandwidthHistory q"
  "stabilizationTimer (adjustQuality q) = stabilizationTimer q"
  by (simp_all add: adjustQuality_def Let_def onQualityChange_def)

lemma setQuality_frame [simp]:
  "bandwidthHistory (setQuality n q) = bandwidthHistory q"
  "stabilizationTimer (setQuality n q) = stabilizationTimer q"
  by (simp_all add: setQuality_def onQualityChange_def split: option.splits)

lemma getAverageBandwidth_whole:
  assumes "bandwidthHistory q = map (\<lambda>n. Finite (of_nat n)) ns" "ns \<noteq> []"
    and "sum_list ns \<le> 2 ^ 53"
  shows "getAverageBandwidth q = round64 (of_nat (sum_list ns) / of_nat (length ns))"
proof -
  have "foldl (\<lambda>sum bw. fadd sum bw) (Finite (of_nat 0)) (map (\<lambda>n. Finite (of_nat n)) ns)
          = Finite (of_nat (0 + sum_list ns))"
    using assms(3) by (intro foldl_fadd_nat) simp
  with assms(1,2) show ?thesis
    by (simp add: getAverageBandwidth_def)
qed

lemma getAverageBandwidth_replicate:
  assumes "0 < n" "n * v \<le> 2 ^ 53" "bandwidthHistory q = replicate n (Finite (of_nat v))"
  shows "getAverageBandwidth q = Finite (of_nat v)"
proof -
  have h: "bandwidthHistory q = map (\<lambda>n. Finite (of_nat n)) (replicate n v)"
    using assms(3) by simp
  have "v \<le> n * v" using assms(1) by (cases n) simp_all
  then have v: "v \<le> 2 ^ 53" using assms(2) by (rule order_trans)
  have "getAverageBandwidth q
          = round64 (of_nat (sum_list (replicate n v)) / of_nat (length (replicate n v)))"
    using assms(1,2) by (intro getAverageBandwidth_whole[OF h]) (simp_all add: sum_list_replicate)
  also have "\<dots> = round64 (of_nat v)"
    using assms(1) by (simp add: sum_list_replicate)
  also have "\<dots> = Finite (of_nat v)"
    by (rule round64_of_nat[OF v])
  finally show ?thesis .
qed



text \<open>
  Rounding decides near a threshold. The mean of the doubles 306.2, 307.4, 310.1, 306.5
  and 307.3 is just below 307.5 and its product with 0.8 just below 246, so the tier is
  audio-only.
\<close>

lemma sample_1: "round64 (3062 / 10) = Finite (5386727366800179 / 17592186044416)"
  by (rule round64_near[where e = 8 and k = 5386727366800179]) simp_all

lemma sample_2: "round64 (3074 / 10) = Finite (2703918995026739 / 8796093022208)"
  by (rule round64_near[where e = 8 and k = 5407837990053478]) simp_all

lemma sample_3: "round64 (3101 / 10) = Finite (2727668446186701 / 8796093022208)"
  by (rule round64_near[where e = 8 and k = 5455336892373402]) simp_all

lemma sample_4: "round64 (3065 / 10) = Finite (613 / 2)"
  by (rule round64_near[where e = 8 and k = 5392005022613504]) simp_all

lemma sample_5: "round64 (3073 / 10) = Finite (5406078771449037 / 17592186044416)"
  by (rule round64_near[where e = 8 and k = 5406078771449037]) simp_all

lemma window_sum_1:
  "fadd (Finite 0) ((Finite (5386727366800179 / 17592186044416))) = Finite (5386727366800179 / 17592186044416)"
  by (simp only: fadd.simps add_0) (rule round64_near[where e = 8 and k = 5386727366800179], simp_all)

lemma window_sum_2:
  "fadd (Finite (5386727366800179 / 17592186044416)) (Finite (2703918995026739 / 8796093022208)) = Finite (1349320669606707 / 2199023255552)"
  by (simp only: fadd.simps) (rule round64_floor[where e = 9 and f = 5397282678426828 and k = 5397282678426828], simp_all)

lemma window_sum_3:
  "fadd (Finite (1349320669606707 / 2199023255552)) (Finite (2727668446186701 / 8796093022208)) = Finite (8124951124613529 / 8796093022208)"
  by (simp only: fadd.simps) (rule round64_near[where e = 9 and k = 8124951124613529], simp_all)

lemma window_sum_4:
  "fadd (Finite (8124951124613529 / 8796093022208)) (Finite (613 / 2)) = Finite (1352619204490035 / 1099511627776)"
  by (simp only: fadd.simps) (rule round64_floor[where e = 10 and f = 5410476817960140 and k = 5410476817960140], simp_all)

lemma window_sum_5:
  "fadd (Finite (1352619204490035 / 1099511627776)) (Finite (5406078771449037 / 17592186044416)) = Finite (6761996510822399 / 4398046511104)"
  by (simp only: fadd.simps) (rule round64_near[where e = 10 and k = 6761996510822399], simp_all)

lemma window_mean:
  "fdivNat (Finite (6761996510822399 / 4398046511104)) 5 = Finite (5409597208657919 / 17592186044416)"
  by (simp only: fdivNat.simps) (rule round64_near[where e = 8 and k = 5409597208657919], simp_all)

lemma window_buffered:
  "fmul08 (Finite (5409597208657919 / 17592186044416)) = Finite (8655355533852671 / 35184372088832)"
  by (simp only: fmul08.simps) (rule round64_near[where e = 7 and k = 8655355533852671], simp_all add: d08_def)

lemma rounding_below_threshold:
  "getAverageBandwidth
      ((newQualityManager ''720p'')
         \<lparr> bandwidthHistory :=
             map round64 [3062 / 10, 3074 / 10, 3101 / 10, 3065 / 10, 3073 / 10] \<rparr>)
     = Finite (5409597208657919 / 17592186044416)
   \<and> name (getRecommendedTier (Finite (5409597208657919 / 17592186044416))) = ''audio-only''
"
proof -
  have five: "Suc (Suc (Suc (Suc (Suc 0)))) = 5" by simp
  have w: "map round64 [3062 / 10, 3074 / 10, 3101 / 10, 3065 / 10, 3073 / 10]
             = [Finite (5386727366800179 / 17592186044416), Finite (2703918995026739 / 8796093022208), Finite (2727668446186701 / 8796093022208), Finite (613 / 2), Finite (5406078771449037 / 17592186044416)]"
    by (simp only: list.map sample_1 sample_2 sample_3 sample_4 sample_5)
  have "getAverageBandwidth
      ((newQualityManager ''720p'')
         \<lparr> bandwidthHistory :=
             map round64 [3062 / 10, 3074 / 10, 3101 / 10, 3065 / 10, 3073 / 10] \<rparr>)
     = Finite (5409597208657919 / 17592186044416)"
    unfolding w getAverageBandwidth_def
    by (simp add: window_sum_1 window_sum_2 window_sum_3 window_sum_4 window_sum_5
          window_mean five del: fadd.simps fdivNat.simps)
  moreover have "name (getRecommendedTier (Finite (5409597208657919 / 17592186044416))) = ''audio-only''"
    unfolding getRecommendedTier_def window_buffered
    by (simp add: QUALITY_TIERS_def)
  ultimately show ?thesis by simp
qed

text \<open>
  The product of the double just below 1820 with 0.8 rounds up to 1456, so the tier is
  720p.
\<close>

lemma rounding_onto_threshold:
  "round64 (18199999999999998 / 10000000000000) = Finite (8004444650209279 / 4398046511104)
   \<and> fmul08 (Finite (8004444650209279 / 4398046511104)) = Finite 1456
   \<and> name (getRecommendedTier (Finite (8004444650209279 / 4398046511104))) = ''720p''"
proof -
  have a: "round64 (18199999999999998 / 10000000000000) = Finite (8004444650209279 / 4398046511104)"
    by (rule round64_near[where e = 10 and k = 8004444650209279]) simp_all
  have b: "fmul08 (Finite (8004444650209279 / 4398046511104)) = Finite 1456"
    by (simp only: fmul08.simps) (rule round64_near[where e = 10 and k = 6403555720167424], simp_all add: d08_def)
  have "name (getRecommendedTier (Finite (8004444650209279 / 4398046511104))) = ''720p''"
    unfolding getRecommendedTier_def b
    by (simp add: QUALITY_TIERS_def)
  with a b show ?thesis by simp
qed

lemma same_name_same_tier:
  assumes "a \<in> set QUALITY_TIERS" "b \<in> set QUALITY_TIERS" "name a = name b"
  shows "a = b"
proof -
  have "inj_on name (set QUALITY_TIERS)"
    using distinct_names by (simp add: distinct_map)
  with assms show ?thesis by (simp add: inj_on_def)
qed


lemma find_by_name:
  assumes "T \<in> set QUALITY_TIERS"
  shows "find (\<lambda>t. name t = name T) QUALITY_TIERS = Some T"
proof (cases "find (\<lambda>t. name t = name T) QUALITY_TIERS")
  case None
  with assms show ?thesis by (auto simp: find_None_iff)
next
  case (Some u)
  then have "u \<in> set QUALITY_TIERS" "name u = name T"
    by (auto simp: find_Some_iff)
  with assms have "u = T" by (intro same_name_same_tier)
  with Some show ?thesis by simp
qed

section \<open>The debounce\<close>

lemma debounced_newSession: "debounced (newSession t0 n)"
  by (simp add: debounced_def newSession_def newQualityManager_in_catalog)
     (simp add: newQualityManager_def)

lemma pending_cases:
  assumes "length (pending ts) \<le> 1"
  obtains "pending ts = []" | h due where "pending ts = [(h, due)]"
  using assms by (cases "pending ts") (auto simp: Suc_le_eq)

lemma debounced_updateBandwidth:
  assumes "debounced s" shows "debounced (updateBandwidth bw s)"
proof -
  from assms have len: "length (pending (timers s)) \<le> 1" by (simp add: debounced_def)
  show ?thesis
  proof (rule pending_cases[OF len])
    assume "pending (timers s) = []"
    with assms show ?thesis
      by (auto simp: debounced_def updateBandwidth_def setTimeout_def clearTimeout_def Let_def
               split: option.splits)
  next
    fix h due assume "pending (timers s) = [(h, due)]"
    with assms show ?thesis
      by (auto simp: debounced_def updateBandwidth_def setTimeout_def clearTimeout_def Let_def
               split: option.splits)
  qed
qed

lemma debounced_fire:
  assumes "debounced s" shows "debounced (fire s)"
proof -
  from assms have len: "length (pending (timers s)) \<le> 1" by (simp add: debounced_def)
  show ?thesis
  proof (rule pending_cases[OF len])
    assume "pending (timers s) = []"
    with assms show ?thesis by (simp add: fire_def)
  next
    fix h due assume "pending (timers s) = [(h, due)]"
    with assms show ?thesis
      by (fastforce simp: debounced_def fire_def clearTimeout_def Let_def sorted_wrt_append
                     adjustQuality_in_catalog
               split: option.splits)
  qed
qed

lemma debounced_advance: "debounced s \<Longrightarrow> debounced (advance dt s)"
  by (fastforce simp: debounced_def advance_def)

lemma debounced_setQuality:
  "debounced s \<Longrightarrow> debounced (s\<lparr> manager := setQuality n (manager s) \<rparr>)"
  by (simp add: debounced_def setQuality_in_catalog)

lemma debounced_step: "debounced s \<Longrightarrow> debounced (step e s)"
  by (cases e)
     (simp_all add: debounced_updateBandwidth debounced_setQuality debounced_advance
        debounced_fire)

lemma debounced_run: "debounced s \<Longrightarrow> debounced (run evs s)"
  by (induction evs arbitrary: s) (simp_all add: debounced_step)


lemma reachable_in_catalog:
  "currentTier (manager (run evs (newSession t0 init))) \<in> set QUALITY_TIERS"
  using debounced_run[OF debounced_newSession, of evs t0 init] by (simp add: debounced_def)

lemma updateBandwidth_window:
  "bandwidthHistory (manager (updateBandwidth bw s)) =
     (if length (bandwidthHistory (manager s)) < 10 then bandwidthHistory (manager s) @ [bw]
      else tl (bandwidthHistory (manager s)) @ [bw])"
  by (cases "bandwidthHistory (manager s)")
     (simp_all add: updateBandwidth_def Let_def setTimeout_def split: prod.splits)

lemma updateBandwidth_pending:
  assumes "debounced s"
  shows "pending (timers (updateBandwidth bw s)) =
           [(nextHandle (timers s), clock (timers s) + 2000)]
       \<and> stabilizationTimer (manager (updateBandwidth bw s)) = Some (nextHandle (timers s))"
proof -
  from assms have len: "length (pending (timers s)) \<le> 1" by (simp add: debounced_def)
  show ?thesis
  proof (rule pending_cases[OF len])
    assume "pending (timers s) = []"
    with assms show ?thesis
      by (auto simp: debounced_def updateBandwidth_def setTimeout_def clearTimeout_def Let_def
               split: option.splits)
  next
    fix h due assume "pending (timers s) = [(h, due)]"
    with assms show ?thesis
      by (auto simp: debounced_def updateBandwidth_def setTimeout_def clearTimeout_def Let_def
               split: option.splits)
  qed
qed

lemma updateBandwidth_frame [simp]:
  "clock (timers (updateBandwidth bw s)) = clock (timers s)"
  "evaluations (updateBandwidth bw s) = evaluations s"
  "commits (updateBandwidth bw s) = commits s"
  "currentTier (manager (updateBandwidth bw s)) = currentTier (manager s)"
  by (simp_all add: updateBandwidth_def Let_def setTimeout_def clearTimeout_def
        split: option.splits prod.splits)





text \<open>
  C3. Along every sequence of \<open>updateBandwidth\<close> and \<open>setQuality\<close> calls, pauses and
  timer runs, any two tier changes committed by the timer are at least 2000 ms apart,
  and so are any two runs of the timer callback; at most one timer is pending; the
  window never holds more than 10 samples. A call of \<open>updateBandwidth\<close> appends the
  sample, dropping the oldest one when the window is full, and leaves exactly one
  pending timer: its own, due 2000 ms later, which replaces any timer pending before.
\<close>

theorem debounce_one_commit_per_2000ms:
  "sorted_wrt (\<lambda>a b. a + 2000 \<le> b) (commits (run evs (newSession t0 init)))
   \<and> sorted_wrt (\<lambda>a b. a + 2000 \<le> b) (evaluations (run evs (newSession t0 init)))
   \<and> length (pending (timers (run evs (newSession t0 init)))) \<le> 1
   \<and> length (bandwidthHistory (manager (run evs (newSession t0 init)))) \<le> 10
   \<and> bandwidthHistory (manager (updateBandwidth bw (run evs (newSession t0 init))))
       = (if length (bandwidthHistory (manager (run evs (newSession t0 init)))) < 10
          then bandwidthHistory (manager (run evs (newSession t0 init))) @ [bw]
          else tl (bandwidthHistory (manager (run evs (newSession t0 init)))) @ [bw])
   \<and> pending (timers (updateBandwidth bw (run evs (newSession t0 init))))
       = [(nextHandle (timers (run evs (newSession t0 init))),
           clock (timers (run evs (newSession t0 init))) + 2000)]
   \<and> stabilizationTimer (manager (updateBandwidth bw (run evs (newSession t0 init))))
       = Some (nextHandle (timers (run evs (newSession t0 init))))"
proof -
  have d: "debounced (run evs (newSession t0 init))"
    by (rule debounced_run[OF debounced_newSession])
  from d have "sorted_wrt (\<lambda>a b. a + 2000 \<le> b) (commits (run evs (newSession t0 init)))"
    and "sorted_wrt (\<lambda>a b. a + 2000 \<le> b) (evaluations (run evs (newSession t0 init)))"
    and "length (pending (timers (run evs (newSession t0 init)))) \<le> 1"
    and "length (bandwidthHistory (manager (run evs (newSession t0 init)))) \<le> 10"
    by (simp_all add: debounced_def)
  with updateBandwidth_pending[OF d, of bw] show ?thesis
    by (simp add: updateBandwidth_window)
qed

text \<open>
  A run in which the first timer is superseded by a second sample, and two changes are
  committed, at 3000 ms and at 5000 ms.
\<close>

lemma mean_5000_5000:
  assumes "bandwidthHistory q = [Finite 5000, Finite 5000]"
  shows "getAverageBandwidth q = Finite 5000"
proof -
  have "getAverageBandwidth q
          = round64 (of_nat (sum_list [5000, 5000]) / of_nat (length [5000, 5000 :: nat]))"
    using assms by (intro getAverageBandwidth_whole) simp_all
  also have "\<dots> = round64 (of_nat 5000)" by simp
  also have "\<dots> = Finite (of_nat 5000)" by (rule round64_of_nat) simp
  finally show ?thesis by simp
qed

lemma mean_5000_5000_100_100:
  assumes "bandwidthHistory q = [Finite 5000, Finite 5000, Finite 100, Finite 100]"
  shows "getAverageBandwidth q = Finite 2550"
proof -
  have "getAverageBandwidth q
          = round64 (of_nat (sum_list [5000, 5000, 100, 100])
                       / of_nat (length [5000, 5000, 100, 100 :: nat]))"
    using assms by (intro getAverageBandwidth_whole) simp_all
  also have "\<dots> = round64 (of_nat 2550)" by simp
  also have "\<dots> = Finite (of_nat 2550)" by (rule round64_of_nat) simp
  finally show ?thesis by simp
qed

lemma trace_example:
  "commits (run [UpdateBandwidth (Finite 5000), Advance 1000, UpdateBandwidth (Finite 5000), Advance 2000, Fire,
                 UpdateBandwidth (Finite 100), UpdateBandwidth (Finite 100), Advance 2000, Fire, Fire] (newSession 0 ''720p''))
     = [3000, 5000]"
  by (simp add: newSession_def newQualityManager_def updateBandwidth_def setTimeout_def
        clearTimeout_def advance_def fire_def adjustQuality_def onQualityChange_def Let_def
        mean_5000_5000 mean_5000_5000_100_100 getRecommendedTier_def buffered_5000
        buffered_2550 QUALITY_TIERS_def)

theorem debounce_one_commit_per_2000ms_witness:
  "commits (run [UpdateBandwidth (Finite 5000), Advance 1000, UpdateBandwidth (Finite 5000), Advance 2000, Fire,
                 UpdateBandwidth (Finite 100), UpdateBandwidth (Finite 100), Advance 2000, Fire, Fire] (newSession 0 ''720p''))
     = [3000, 5000]
   \<and> sorted_wrt (\<lambda>a b. a + 2000 \<le> b)
       (commits (run [UpdateBandwidth (Finite 5000), Advance 1000, UpdateBandwidth (Finite 5000), Advance 2000, Fire,
                 UpdateBandwidth (Finite 100), UpdateBandwidth (Finite 100), Advance 2000, Fire, Fire] (newSession 0 ''720p'')))"
  using debounce_one_commit_per_2000ms [of
      "[UpdateBandwidth (Finite 5000), Advance 1000, UpdateBandwidth (Finite 5000), Advance 2000, Fire,
        UpdateBandwidth (Finite 100), UpdateBandwidth (Finite 100), Advance 2000, Fire, Fire]" 0 "''720p''"] trace_example
  by simp

text \<open>
  C4. For every tier T of the catalog, \<open>setQuality\<close> with the name of T followed by
  \<open>getCurrentTier\<close> gives T itself; the call leaves the sample window as it was and
  emits one quality change carrying T.
\<close>

theorem setQuality_then_getCurrentTier:
  assumes "T \<in> set QUALITY_TIERS"
  shows "getCurrentTier (setQuality (name T) q) = T
       \<and> bandwidthHistory (setQuality (name T) q) = bandwidthHistory q
       \<and> emitted (setQuality (name T) q) = emitted q @ [T]"
  using find_by_name[OF assms]
  by (simp add: setQuality_def getCurrentTier_def onQualityChange_def)

text \<open>
  The override at the tier 144p, on a manager whose window holds two samples.
\<close>

theorem setQuality_then_getCurrentTier_witness:
  "QUALITY_TIERS ! 4 \<in> set QUALITY_TIERS
   \<and> getCurrentTier (setQuality (name (QUALITY_TIERS ! 4))
        ((newQualityManager ''720p'')\<lparr> bandwidthHistory := [Finite 2500, Finite 100] \<rparr>)) = QUALITY_TIERS ! 4
   \<and> bandwidthHistory (setQuality (name (QUALITY_TIERS ! 4))
        ((newQualityManager ''720p'')\<lparr> bandwidthHistory := [Finite 2500, Finite 100] \<rparr>)) = [Finite 2500, Finite 100]"
proof -
  have h: "QUALITY_TIERS ! 4 \<in> set QUALITY_TIERS"
    by (simp add: QUALITY_TIERS_def)
  from setQuality_then_getCurrentTier [OF h,
      of "(newQualityManager ''720p'')\<lparr> bandwidthHistory := [Finite 2500, Finite 100] \<rparr>"] h
  show ?thesis by simp
qed

text \<open>
  C6, as the claim states it, fails on a window of ten samples of 100 kbps: the
  evaluation selects audio-only, but it is not true that no tier has a total of at most
  80, since the total of audio-only is 64.
\<close>

theorem sustained_100_no_tier_counterexample:
  "\<not> (name (getRecommendedTier (getAverageBandwidth
            ((newQualityManager ''720p'')\<lparr> bandwidthHistory := replicate 10 (Finite 100) \<rparr>)))
        = ''audio-only''
      \<and> list_all (\<lambda>t. \<not> geq (fmul08 (getAverageBandwidth
                 ((newQualityManager ''720p'')
                    \<lparr> bandwidthHistory := replicate 10 (Finite 100) \<rparr>)))
               (totalBandwidth t)) QUALITY_TIERS)"
proof -
  have "getAverageBandwidth
          ((newQualityManager ''720p'')\<lparr> bandwidthHistory := replicate 10 (Finite 100) \<rparr>)
          = Finite (of_nat 100)"
    by (rule getAverageBandwidth_replicate[of 10]) simp_all
  then show ?thesis by (simp add: buffered_100 QUALITY_TIERS_def)
qed

text \<open>
  C6, amended. For a window of sustained 100 kbps samples the buffered bandwidth is 80
  and the evaluation selects the audio-only tier: the scan itself returns it, because
  audio-only, with total 64, is the one tier of the catalog whose total is at most 80.
  The window may be as long as the exact sums of doubles allow, a total of \<open>2 ^ 53\<close>;
  the window of the manager holds at most 10 samples.
\<close>

theorem sustained_100_selects_audio_only:
  assumes "0 < n" and "n * 100 \<le> 2 ^ 53"
    and "bandwidthHistory q = replicate n (Finite 100)"
  shows "fmul08 (getAverageBandwidth q) = Finite 80
       \<and> scanTiers (Finite 80) QUALITY_TIERS = Some (last QUALITY_TIERS)
       \<and> filter (\<lambda>t. totalBandwidth t \<le> 80) QUALITY_TIERS = [last QUALITY_TIERS]
       \<and> totalBandwidth (last QUALITY_TIERS) = 64
       \<and> getRecommendedTier (getAverageBandwidth q) = last QUALITY_TIERS
       \<and> name (currentTier (adjustQuality q)) = ''audio-only''"
proof -
  have "getAverageBandwidth q = Finite (of_nat 100)"
    using assms by (intro getAverageBandwidth_replicate) simp_all
  then have avg: "getAverageBandwidth q = Finite 100" by simp
  have rec: "getRecommendedTier (Finite 100) = last QUALITY_TIERS"
    by (simp add: getRecommendedTier_def buffered_100 QUALITY_TIERS_def)
  have nm: "name (last QUALITY_TIERS) = ''audio-only''"
    by (simp add: QUALITY_TIERS_def)
  have "name (currentTier (adjustQuality q)) = ''audio-only''"
    using nm by (simp add: adjustQuality_def Let_def onQualityChange_def avg rec)
  moreover have "scanTiers (Finite 80) QUALITY_TIERS = Some (last QUALITY_TIERS)"
    by (simp add: QUALITY_TIERS_def)
  moreover have "filter (\<lambda>t. totalBandwidth t \<le> 80) QUALITY_TIERS = [last QUALITY_TIERS]"
    by (simp add: QUALITY_TIERS_def)
  moreover have "totalBandwidth (last QUALITY_TIERS) = 64"
    by (simp add: QUALITY_TIERS_def)
  ultimately show ?thesis by (simp add: avg rec buffered_100)
qed

text \<open>
  The selection on a window of ten samples of 100 kbps.
\<close>

theorem sustained_100_selects_audio_only_witness:
  "(0::nat) < 10 \<and> (10::nat) * 100 \<le> 2 ^ 53
   \<and> bandwidthHistory
        ((newQualityManager ''720p'')\<lparr> bandwidthHistory := replicate 10 (Finite 100) \<rparr>)
       = replicate 10 (Finite 100)
   \<and> fmul08 (getAverageBandwidth
        ((newQualityManager ''720p'')\<lparr> bandwidthHistory := replicate 10 (Finite 100) \<rparr>))
       = Finite 80
   \<and> scanTiers (Finite 80) QUALITY_TIERS = Some (last QUALITY_TIERS)
   \<and> name (currentTier (adjustQuality
        ((newQualityManager ''720p'')\<lparr> bandwidthHistory := replicate 10 (Finite 100) \<rparr>)))
       = ''audio-only''"
  using sustained_100_selects_audio_only [of 10
      "(newQualityManager ''720p'')\<lparr> bandwidthHistory := replicate 10 (Finite 100) \<rparr>"]
  by simp

text \<open>
  C10. The current tier is always a tier of the catalog: along every sequence of
  \<open>updateBandwidth\<close> and \<open>setQuality\<close> calls, pauses and timer runs from a manager made by
  the constructor, \<open>getCurrentTier\<close> returns a catalog tier. The constructor maps a
  name outside the catalog to the second entry, 720p; \<open>adjustQuality\<close> and
  \<open>setQuality\<close> keep the current tier in the catalog; \<open>setQuality\<close> with a name
  outside the catalog changes nothing and emits nothing.
\<close>

theorem current_tier_in_catalog:
  "getCurrentTier (manager (run evs (newSession t0 init))) \<in> set QUALITY_TIERS
   \<and> (init \<notin> set (map name QUALITY_TIERS)
        \<longrightarrow> currentTier (newQualityManager init) = QUALITY_TIERS ! 1)
   \<and> name (QUALITY_TIERS ! 1) = ''720p''
   \<and> (currentTier q \<in> set QUALITY_TIERS
        \<longrightarrow> currentTier (adjustQuality q) \<in> set QUALITY_TIERS
          \<and> currentTier (setQuality other q) \<in> set QUALITY_TIERS)
   \<and> (other \<notin> set (map name QUALITY_TIERS) \<longrightarrow> setQuality other q = q)"
proof (intro conjI impI)
  show "getCurrentTier (manager (run evs (newSession t0 init))) \<in> set QUALITY_TIERS"
    by (simp add: getCurrentTier_def reachable_in_catalog)
next
  assume "init \<notin> set (map name QUALITY_TIERS)"
  then have "find (\<lambda>tier. name tier = init) QUALITY_TIERS = None"
    by (auto simp: find_None_iff)
  then show "currentTier (newQualityManager init) = QUALITY_TIERS ! 1"
    by (simp add: newQualityManager_def)
next
  show "name (QUALITY_TIERS ! 1) = ''720p''"
    by (simp add: QUALITY_TIERS_def)
next
  assume "other \<notin> set (map name QUALITY_TIERS)"
  then have "find (\<lambda>t. name t = other) QUALITY_TIERS = None"
    by (auto simp: find_None_iff)
  then show "setQuality other q = q"
    by (simp add: setQuality_def)
qed (simp_all add: adjustQuality_in_catalog setQuality_in_catalog)

text \<open>
  The invariant for the name 4k, which is not in the catalog.
\<close>

theorem current_tier_in_catalog_witness:
  "''4k'' \<notin> set (map name QUALITY_TIERS)
   \<and> currentTier (newQualityManager ''4k'') = QUALITY_TIERS ! 1
   \<and> currentTier (newQualityManager ''4k'') \<in> set QUALITY_TIERS
   \<and> currentTier (adjustQuality (newQualityManager ''4k'')) \<in> set QUALITY_TIERS
   \<and> setQuality ''4k'' (newQualityManager ''4k'') = newQualityManager ''4k''
   \<and> getCurrentTier (manager (run [UpdateBandwidth (Finite 100), SetQuality ''4k'', Advance 2000, Fire]
         (newSession 0 ''4k''))) \<in> set QUALITY_TIERS"
proof -
  have "QUALITY_TIERS ! 1 \<in> set QUALITY_TIERS"
    by (simp add: QUALITY_TIERS_def)
  with current_tier_in_catalog [of "[UpdateBandwidth (Finite 100), SetQuality ''4k'', Advance 2000, Fire]"
      0 "''4k''" "newQualityManager ''4k''" "''4k''"]
  show ?thesis
    by (simp add: names_QUALITY_TIERS)
qed


section \<open>The peer table\<close>

lemma update_absent:
  "k \<notin> fst ` set al \<Longrightarrow> AList.update k v al = al @ [(k, v)]"
  by (induction al) auto

lemma createPeer_new_entry:
  assumes "map_of (peers m) peerId = None"
  shows "peers (createPeer peerId isInitiator m) =
           peers m @ [(peerId, \<lparr> id' = peerId, peer = nextInstance m, stream = None,
                                 isHost = isInitiator,
                                 peerQuality = name (getCurrentTier (qualityManager m)) \<rparr>)]"
proof -
  from assms have "peerId \<notin> fst ` set (peers m)"
    by (simp add: map_of_eq_None_iff)
  then have "AList.update peerId v (peers m) = peers m @ [(peerId, v)]" for v
    by (rule update_absent)
  with assms show ?thesis
    by (simp add: createPeer_def Let_def)
qed

lemma atCapacity_peers:
  "map fst (peers atCapacity) = [''a'', ''b''] \<and> maxPeers (config atCapacity) = 2
   \<and> map fst (peers (createPeer ''c'' True atCapacity)) = [''a'', ''b'', ''c'']"
  by code_simp

text \<open>
  C7, as the claim states it, fails: with \<open>maxPeers\<close> 2 and the two peers a and b in
  the table, \<open>createPeer\<close> for the new identifier c returns normally and the table then
  holds three peers, one more than the cap.
\<close>

theorem createPeer_at_maxPeers_counterexample:
  "int (length (peers atCapacity)) = maxPeers (config atCapacity)
   \<and> map_of (peers atCapacity) ''c'' = None
   \<and> map fst (peers (createPeer ''c'' True atCapacity)) = [''a'', ''b'', ''c'']
   \<and> int (length (peers (createPeer ''c'' True atCapacity))) > maxPeers (config atCapacity)"
proof -
  have a: "length (peers atCapacity) = length (map fst (peers atCapacity))"
    and b: "length (peers (createPeer ''c'' True atCapacity))
          = length (map fst (peers (createPeer ''c'' True atCapacity)))"
    by simp_all
  have "''c'' \<notin> set (map fst (peers atCapacity))"
    by (simp add: atCapacity_peers)
  then have "map_of (peers atCapacity) ''c'' = None"
    by (simp add: map_of_eq_None_iff)
  then show ?thesis
    unfolding a b by (simp add: atCapacity_peers)
qed

text \<open>
  C7, amended. \<open>createPeer\<close> does not consult \<open>maxPeers\<close>: for an identifier that is not
  in the table it always adds the entry of the new connection, so the table grows by
  one whatever the configuration says, and it returns normally. No capacity error
  exists.
\<close>

theorem createPeer_ignores_maxPeers:
  assumes "map_of (peers m) peerId = None"
  shows "length (peers (createPeer peerId isInitiator m)) = Suc (length (peers m))
       \<and> map_of (peers (createPeer peerId isInitiator m)) peerId
           = Some \<lparr> id' = peerId, peer = nextInstance m, stream = None, isHost = isInitiator,
                    peerQuality = name (getCurrentTier (qualityManager m)) \<rparr>
       \<and> peers (createPeer peerId isInitiator (m\<lparr> config := c \<rparr>))
           = peers (createPeer peerId isInitiator m)
       \<and> config (createPeer peerId isInitiator m) = config m"
proof -
  have "map_of (peers (m\<lparr> config := c \<rparr>)) peerId = None"
    using assms by simp
  from createPeer_new_entry[OF this] createPeer_new_entry[OF assms]
  show ?thesis
    using assms by (simp add: createPeer_def Let_def map_add_def)
qed

text \<open>
  The new peer c on the mesh that is at its cap.
\<close>

theorem createPeer_ignores_maxPeers_witness:
  "map_of (peers atCapacity) ''c'' = None
   \<and> length (peers (createPeer ''c'' True atCapacity)) = Suc (length (peers atCapacity))
   \<and> config (createPeer ''c'' True atCapacity) = config atCapacity"
proof -
  have "''c'' \<notin> set (map fst (peers atCapacity))"
    by (simp add: atCapacity_peers)
  then have h: "map_of (peers atCapacity) ''c'' = None"
    by (simp add: map_of_eq_None_iff)
  from createPeer_ignores_maxPeers [OF h, of True] h show ?thesis by simp
qed

section \<open>Capture acquisition\<close>

lemma mean_5000:
  assumes "bandwidthHistory q = [Finite 5000]"
  shows "getAverageBandwidth q = Finite 5000"
proof -
  have "getAverageBandwidth q = Finite (of_nat 5000)"
    using assms by (intro getAverageBandwidth_replicate[of 1]) simp_all
  then show ?thesis by simp
qed

lemma afterFallback_facts:
  "localStream (webrtc afterFallback) = Some \<lparr> videoTracks = [], audioTracks = [1] \<rparr>
   \<and> name (currentTier (qualityManager (webrtc afterFallback))) = ''audio-only''
   \<and> requests (webrtc afterFallback)
       = [\<lparr> video = IdealVideo 1280 720 30, audio = True \<rparr>,
          \<lparr> video = NoVideo, audio = True \<rparr>]
   \<and> requests (webrtc (adjustQualityWebRTC cameraDenied (Finite 5000) afterFallback))
       = requests (webrtc afterFallback)"
  by (simp add: afterFallback_def setupLocalStream_def cameraDenied_def getConstraints_def
        newWebRTCManager_def newQualityManager_def QUALITY_TIERS_def setQuality_def
        onQualityChange_def onLocalStreamReady_def Let_def adjustQualityWebRTC_def
        withQualitySession_def qualitySession_def updateBandwidth_def setTimeout_def
        getCurrentTier_def)

lemma tierRaised_facts:
  "localStream (webrtc tierRaised) = Some \<lparr> videoTracks = [], audioTracks = [1] \<rparr>
   \<and> name (currentTier (qualityManager (webrtc tierRaised))) = ''1080p''
   \<and> emitted (qualityManager (webrtc tierRaised))
       = emitted (qualityManager (webrtc afterFallback)) @ [QUALITY_TIERS ! 0]
   \<and> requests (webrtc tierRaised) = requests (webrtc afterFallback)
   \<and> getConstraints (qualityManager (webrtc tierRaised))
       = \<lparr> video = IdealVideo 1920 1080 30, audio = True \<rparr>"
  by (simp add: tierRaised_def afterFallback_def setupLocalStream_def cameraDenied_def
        getConstraints_def newWebRTCManager_def newQualityManager_def QUALITY_TIERS_def
        setQuality_def onQualityChange_def onLocalStreamReady_def Let_def
        adjustQualityWebRTC_def withQualitySession_def qualitySession_def updateBandwidth_def
        setTimeout_def getCurrentTier_def timePasses_def timerFires_def advance_def fire_def
        clearTimeout_def adjustQuality_def mean_5000 getRecommendedTier_def buffered_5000)

text \<open>
  C8, as the claim states it, fails in its last part. The engine starts on a device
  that refuses the camera and falls back to audio only, after two requests. A bandwidth
  report of 5000 kbps arrives and the stabilization timer raises the tier to 1080p;
  nobody selected a tier. At the next bandwidth report the engine asks the device for
  the camera again, a third request.
\<close>

theorem fallback_retried_counterexample:
  "requests (webrtc afterFallback)
     = [\<lparr> video = IdealVideo 1280 720 30, audio = True \<rparr>, \<lparr> video = NoVideo, audio = True \<rparr>]
   \<and> name (currentTier (qualityManager (webrtc afterFallback))) = ''audio-only''
   \<and> emitted (qualityManager (webrtc tierRaised))
       = emitted (qualityManager (webrtc afterFallback)) @ [QUALITY_TIERS ! 0]
   \<and> requests (webrtc (adjustQualityWebRTC cameraDenied (Finite 5000) tierRaised))
       = [\<lparr> video = IdealVideo 1280 720 30, audio = True \<rparr>, \<lparr> video = NoVideo, audio = True \<rparr>,
          \<lparr> video = IdealVideo 1920 1080 30, audio = True \<rparr>]"
proof -
  have "requests (webrtc (adjustQualityWebRTC cameraDenied (Finite 5000) tierRaised))
          = requests (webrtc tierRaised) @ [getConstraints (qualityManager (webrtc tierRaised))]"
    using tierRaised_facts
    by (simp add: adjustQualityWebRTC_def Let_def withQualitySession_def qualitySession_def
          getCurrentTier_def restartVideoStream_def getConstraints_def cameraDenied_def
          split: sum.splits list.splits)
  with tierRaised_facts afterFallback_facts show ?thesis by simp
qed

text \<open>
  C8, amended. When the first acquisition is refused and the audio-only acquisition
  succeeds, \<open>setupLocalStream\<close> returns normally; the local stream is the stream of the
  audio-only request, the current tier is the audio-only floor, one local-stream-ready
  event carries that stream, and the device was asked exactly twice: the tier's
  constraints, then audio only. When the audio-only acquisition is refused too, its
  error is thrown after the same two requests and nothing is emitted. One call of
  \<open>setupLocalStream\<close> never makes more than two requests. Afterwards the video is
  requested again without anybody selecting a tier: while the current tier is
  audio-only a bandwidth report makes no request, but once the stabilization timer has
  made a video tier current, the next bandwidth report finds the stream without a
  video track and asks the device again, with the constraints of that tier.
\<close>

theorem capture_denied_falls_back_once:
  "(getUserMedia (length (requests m)) (getConstraints (qualityManager m)) = Inl e0
     \<and> getUserMedia (Suc (length (requests m))) \<lparr> video = NoVideo, audio = True \<rparr> = Inr s
    \<longrightarrow> \<not> isl (setupLocalStream getUserMedia m)
      \<and> localStream (projr (setupLocalStream getUserMedia m)) = Some s
      \<and> getCurrentTier (qualityManager (projr (setupLocalStream getUserMedia m)))
          = last QUALITY_TIERS
      \<and> name (last QUALITY_TIERS) = ''audio-only''
      \<and> events (projr (setupLocalStream getUserMedia m)) = events m @ [LocalStreamReady s]
      \<and> requests (projr (setupLocalStream getUserMedia m))
          = requests m @ [getConstraints (qualityManager m), \<lparr> video = NoVideo, audio = True \<rparr>])
 \<and> (getUserMedia (length (requests m)) (getConstraints (qualityManager m)) = Inl e0
     \<and> getUserMedia (Suc (length (requests m))) \<lparr> video = NoVideo, audio = True \<rparr> = Inl e'
    \<longrightarrow> isl (setupLocalStream getUserMedia m)
      \<and> fst (projl (setupLocalStream getUserMedia m)) = e'
      \<and> events (snd (projl (setupLocalStream getUserMedia m))) = events m
      \<and> requests (snd (projl (setupLocalStream getUserMedia m)))
          = requests m @ [getConstraints (qualityManager m), \<lparr> video = NoVideo, audio = True \<rparr>])
 \<and> length (requests (case setupLocalStream getUserMedia m of
                        Inl (err, m') \<Rightarrow> m' | Inr m' \<Rightarrow> m'))
      \<le> length (requests m) + 2
 \<and> (localStream (webrtc e) = Some current
     \<and> name (currentTier (qualityManager (webrtc e))) = ''audio-only''
    \<longrightarrow> requests (webrtc (adjustQualityWebRTC getUserMedia bw e)) = requests (webrtc e))
 \<and> (localStream (webrtc e) = Some current \<and> videoTracks current = []
     \<and> name (currentTier (qualityManager (webrtc e))) \<noteq> ''audio-only''
    \<longrightarrow> requests (webrtc (adjustQualityWebRTC getUserMedia bw e))
          = requests (webrtc e) @ [getConstraints (qualityManager (webrtc e))])"
proof -
  have tier: "currentTier (manager (updateBandwidth bw (qualitySession e)))
                = currentTier (qualityManager (webrtc e))"
    by (simp add: qualitySession_def)
  have quiet: "localStream (webrtc e) = Some current
     \<and> name (currentTier (qualityManager (webrtc e))) = ''audio-only''
    \<longrightarrow> requests (webrtc (adjustQualityWebRTC getUserMedia bw e)) = requests (webrtc e)"
    using tier
    by (simp add: adjustQualityWebRTC_def Let_def withQualitySession_def getCurrentTier_def)
  have again: "localStream (webrtc e) = Some current \<and> videoTracks current = []
     \<and> name (currentTier (qualityManager (webrtc e))) \<noteq> ''audio-only''
    \<longrightarrow> requests (webrtc (adjustQualityWebRTC getUserMedia bw e))
          = requests (webrtc e) @ [getConstraints (qualityManager (webrtc e))]"
    using tier
    by (simp add: adjustQualityWebRTC_def Let_def withQualitySession_def getCurrentTier_def
          restartVideoStream_def getConstraints_def split: sum.splits list.splits)
  have audio: "find (\<lambda>t. name t = ''audio-only'') QUALITY_TIERS = Some (last QUALITY_TIERS)"
    by (simp add: QUALITY_TIERS_def)
  have "name (last QUALITY_TIERS) = ''audio-only''"
    by (simp add: QUALITY_TIERS_def)
  then have "(getUserMedia (length (requests m)) (getConstraints (qualityManager m)) = Inl e0
     \<and> getUserMedia (Suc (length (requests m))) \<lparr> video = NoVideo, audio = True \<rparr> = Inr s
    \<longrightarrow> \<not> isl (setupLocalStream getUserMedia m)
      \<and> localStream (projr (setupLocalStream getUserMedia m)) = Some s
      \<and> getCurrentTier (qualityManager (projr (setupLocalStream getUserMedia m)))
          = last QUALITY_TIERS
      \<and> name (last QUALITY_TIERS) = ''audio-only''
      \<and> events (projr (setupLocalStream getUserMedia m)) = events m @ [LocalStreamReady s]
      \<and> requests (projr (setupLocalStream getUserMedia m))
          = requests m @ [getConstraints (qualityManager m), \<lparr> video = NoVideo, audio = True \<rparr>])
 \<and> (getUserMedia (length (requests m)) (getConstraints (qualityManager m)) = Inl e0
     \<and> getUserMedia (Suc (length (requests m))) \<lparr> video = NoVideo, audio = True \<rparr> = Inl e'
    \<longrightarrow> isl (setupLocalStream getUserMedia m)
      \<and> fst (projl (setupLocalStream getUserMedia m)) = e'
      \<and> events (snd (projl (setupLocalStream getUserMedia m))) = events m
      \<and> requests (snd (projl (setupLocalStream getUserMedia m)))
          = requests m @ [getConstraints (qualityManager m), \<lparr> video = NoVideo, audio = True \<rparr>])
 \<and> length (requests (case setupLocalStream getUserMedia m of
                        Inl (err, m') \<Rightarrow> m' | Inr m' \<Rightarrow> m'))
      \<le> length (requests m) + 2"
    by (auto simp: setupLocalStream_def Let_def onLocalStreamReady_def setQuality_def audio
                   onQualityChange_def getCurrentTier_def
             split: sum.splits)
  with quiet again show ?thesis by blast
qed


text \<open>
  A fresh engine on the device that refuses the camera: the request for 1280x720 fails,
  the audio-only request succeeds; and the same engine after the timer has raised the
  tier, at its next bandwidth report.
\<close>

theorem capture_denied_falls_back_once_witness:
  "cameraDenied (length (requests (newWebRTCManager cfg2)))
       (getConstraints (qualityManager (newWebRTCManager cfg2))) = Inl ''NotAllowedError''
   \<and> cameraDenied (Suc (length (requests (newWebRTCManager cfg2))))
       \<lparr> video = NoVideo, audio = True \<rparr> = Inr \<lparr> videoTracks = [], audioTracks = [1] \<rparr>
   \<and> \<not> isl (setupLocalStream cameraDenied (newWebRTCManager cfg2))
   \<and> name (getCurrentTier (qualityManager
        (projr (setupLocalStream cameraDenied (newWebRTCManager cfg2))))) = ''audio-only''
   \<and> events (projr (setupLocalStream cameraDenied (newWebRTCManager cfg2)))
       = [LocalStreamReady \<lparr> videoTracks = [], audioTracks = [1] \<rparr>]
   \<and> localStream (webrtc tierRaised) = Some \<lparr> videoTracks = [], audioTracks = [1] \<rparr>
   \<and> videoTracks \<lparr> videoTracks = [], audioTracks = [1] \<rparr> = []
   \<and> name (currentTier (qualityManager (webrtc tierRaised))) \<noteq> ''audio-only''
   \<and> requests (webrtc (adjustQualityWebRTC cameraDenied (Finite 5000) tierRaised))
       = requests (webrtc tierRaised) @ [\<lparr> video = IdealVideo 1920 1080 30, audio = True \<rparr>]"
proof -
  have c: "getConstraints (qualityManager (newWebRTCManager cfg2))
             = \<lparr> video = IdealVideo 1280 720 30, audio = True \<rparr>"
    by (simp add: getConstraints_def newWebRTCManager_def newQualityManager_def QUALITY_TIERS_def)
  have h1: "cameraDenied (length (requests (newWebRTCManager cfg2)))
       (getConstraints (qualityManager (newWebRTCManager cfg2))) = Inl ''NotAllowedError''"
    by (simp add: c cameraDenied_def)
  have h2: "cameraDenied (Suc (length (requests (newWebRTCManager cfg2))))
       \<lparr> video = NoVideo, audio = True \<rparr> = Inr \<lparr> videoTracks = [], audioTracks = [1] \<rparr>"
    by (simp add: cameraDenied_def)
  have e: "events (newWebRTCManager cfg2) = []"
    by (simp add: newWebRTCManager_def)
  from capture_denied_falls_back_once [where getUserMedia = cameraDenied
      and m = "newWebRTCManager cfg2" and ?e0.0 = "''NotAllowedError''"
      and s = "\<lparr> videoTracks = [], audioTracks = [1] \<rparr>" and e = tierRaised
      and current = "\<lparr> videoTracks = [], audioTracks = [1] \<rparr>" and bw = "Finite 5000"]
    h1 h2 e tierRaised_facts
  show ?thesis by simp
qed

section \<open>The stats sampler\<close>

lemma set_delete_subset: "set (AList.delete k al) \<subseteq> set al"
  by (auto simp: AList.delete_eq)

lemma wellFormed_removePeer: "wellFormed m \<Longrightarrow> wellFormed (removePeer p m)"
  using set_delete_subset[of p "peers m"]
  by (auto simp: wellFormed_def removePeer_def split: option.splits)

lemma set_update_subset: "set (AList.update k v al) \<subseteq> insert (k, v) (set al)"
  by (induction al) auto

lemma nextInstance_removePeer [simp]: "nextInstance (removePeer p m) = nextInstance m"
  by (simp add: removePeer_def split: option.splits)

lemma wellFormed_createPeer:
  assumes "wellFormed m" shows "wellFormed (createPeer p i m)"
proof -
  define m' where "m' = (if map_of (peers m) p \<noteq> None then removePeer p m else m)"
  have wf: "wellFormed m'"
    using assms by (simp add: m'_def wellFormed_removePeer)
  have "\<And>k c v. (k, c) \<in> set (AList.update p v (peers m')) \<Longrightarrow> (k, c) = (p, v) \<or> (k, c) \<in> set (peers m')"
    using set_update_subset[of p _ "peers m'"] by blast
  with wf show ?thesis
    unfolding createPeer_def Let_def m'_def[symmetric]
    by (fastforce simp: wellFormed_def)
qed

lemma wellFormed_act:
  assumes "wellFormed m" shows "wellFormed (act a m)"
proof (cases a)
  case (CreatePeer p i)
  with assms show ?thesis by (simp add: wellFormed_createPeer)
next
  case (RemovePeer p)
  with assms show ?thesis by (simp add: wellFormed_removePeer)
next
  case (Connect r)
  with assms show ?thesis
    by (auto simp: peerConnect_def startConnectionMonitoring_def wellFormed_def
             split: option.splits)
next
  case (Close r)
  from assms
  have "wellFormed (m\<lparr> instances := (instances m)(r := destroy (instances m r)) \<rparr>)"
    by (simp add: wellFormed_def)
  from wellFormed_removePeer[OF this, of "owner (instances m r)"] assms
  show ?thesis
    by (simp add: Close peerClose_def Let_def wellFormed_def)
next
  case (Tick h)
  with assms show ?thesis
    by (auto simp: samplerTick_def wellFormed_def split: option.splits)
qed

lemma wellFormed_exec: "wellFormed m \<Longrightarrow> wellFormed (exec as m)"
  by (induction as arbitrary: m) (simp_all add: wellFormed_act)

lemma wellFormed_new: "wellFormed (newWebRTCManager cfg)"
  by (simp add: wellFormed_def newWebRTCManager_def)

lemma dead_removePeer: "dead r m \<Longrightarrow> dead r (removePeer p m)"
  by (auto simp: dead_def removePeer_def destroy_def split: option.splits)

lemma samplerLog_removePeer [simp]:
  "samplerLog (removePeer p m) = samplerLog m"
  "intervals (removePeer p m) = intervals m"
  "events (removePeer p m) = events m"
  by (simp_all add: removePeer_def split: option.splits)

lemma dead_act: "dead r m \<Longrightarrow> dead r (act a m) \<and> emittedBy r (act a m) = emittedBy r m"
proof (cases a)
  case (CreatePeer p i)
  assume d: "dead r m"
  define m' where "m' = (if map_of (peers m) p \<noteq> None then removePeer p m else m)"
  have "dead r m'" "samplerLog m' = samplerLog m"
    using d by (simp_all add: m'_def dead_removePeer)
  then show ?thesis
    unfolding CreatePeer act.simps createPeer_def Let_def m'_def[symmetric]
    by (auto simp: dead_def emittedBy_def)
next
  case (RemovePeer p)
  assume "dead r m"
  then show ?thesis
    by (simp add: RemovePeer dead_removePeer emittedBy_def)
next
  case (Connect r')
  assume "dead r m"
  then show ?thesis
    by (auto simp: Connect peerConnect_def startConnectionMonitoring_def dead_def emittedBy_def
             split: option.splits)
next
  case (Close r')
  assume d: "dead r m"
  then have "dead r (m\<lparr> instances := (instances m)(r' := destroy (instances m r')) \<rparr>)"
    by (auto simp: dead_def destroy_def)
  from dead_removePeer[OF this, of "owner (instances m r')"] d
  show ?thesis
    by (simp add: Close peerClose_def Let_def dead_def emittedBy_def)
next
  case (Tick h)
  assume "dead r m"
  then show ?thesis
    by (auto simp: Tick samplerTick_def dead_def emittedBy_def split: option.splits)
qed

lemma dead_exec: "dead r m \<Longrightarrow> emittedBy r (exec as m) = emittedBy r m"
proof (induction as arbitrary: m)
  case Nil
  then show ?case by simp
next
  case (Cons a as)
  from dead_act[OF Cons.prems, of a] Cons.IH[of "act a m"] show ?case by simp
qed

lemma removePeer_kills:
  assumes "wellFormed m" "map_of (peers m) p = Some c"
  shows "dead (peer c) (removePeer p m)"
proof -
  from assms(2) have "(p, c) \<in> set (peers m)" by (rule map_of_SomeD)
  with assms(1) have "peer c < nextInstance m" by (auto simp: wellFormed_def)
  with assms(2) show ?thesis
    by (simp add: dead_def removePeer_def destroy_def)
qed

lemma monitored_facts:
  "map fst (peers monitored) = [''a'']
   \<and> intervals monitored = [(1, ''a'', 0)]
   \<and> intervals (removePeer ''a'' monitored) = [(1, ''a'', 0)]
   \<and> samplerLog (removePeer ''a'' monitored) = []
   \<and> samplerLog (samplerTick 1 (removePeer ''a'' monitored)) = [(1, 0, False)]
   \<and> intervals (samplerTick 1 (removePeer ''a'' monitored)) = []
   \<and> map (peer \<circ> snd) (peers monitored) = [0]"
  by code_simp


text \<open>
  C9, as the claim states it, fails: after \<open>removePeer\<close> has destroyed the connection
  of peer a, its sampler's interval is still pending, and at the next tick the callback
  runs.
\<close>

theorem destroy_cancels_sampler_counterexample:
  "map_of (peers monitored) ''a''
     = Some \<lparr> id' = ''a'', peer = 0, stream = None, isHost = True, peerQuality = ''720p'' \<rparr>
   \<and> destroyed (instances (removePeer ''a'' monitored) 0)
   \<and> intervals (removePeer ''a'' monitored) = [(1, ''a'', 0)]
   \<and> samplerLog (removePeer ''a'' monitored) = []
   \<and> samplerLog (samplerTick 1 (removePeer ''a'' monitored)) = [(1, 0, False)]"
  by code_simp

text \<open>
  C9, amended. \<open>removePeer\<close> leaves the pending intervals as they are: the destroy
  call cancels no timer. Whatever happens afterwards, no run of a sampler callback of
  the destroyed connection emits a stats event. The next run of that callback finds the
  peer not connected, clears its own interval and emits nothing.
\<close>

theorem destroyed_sampler_stops_at_next_tick:
  assumes "map_of (peers (exec pre (newWebRTCManager cfg))) p = Some c"
  shows "intervals (removePeer p (exec pre (newWebRTCManager cfg)))
           = intervals (exec pre (newWebRTCManager cfg))
       \<and> filter (\<lambda>(h, r, e). r = peer c \<and> e)
           (samplerLog (exec after (removePeer p (exec pre (newWebRTCManager cfg)))))
         = filter (\<lambda>(h, r, e). r = peer c \<and> e)
             (samplerLog (exec pre (newWebRTCManager cfg)))
       \<and> (map_of (intervals (exec pre (newWebRTCManager cfg))) h = Some (i, peer c) \<longrightarrow>
            map_of (intervals (samplerTick h (removePeer p (exec pre (newWebRTCManager cfg))))) h
              = None
          \<and> events (samplerTick h (removePeer p (exec pre (newWebRTCManager cfg))))
              = events (exec pre (newWebRTCManager cfg))
          \<and> samplerLog (samplerTick h (removePeer p (exec pre (newWebRTCManager cfg))))
              = samplerLog (exec pre (newWebRTCManager cfg)) @ [(h, peer c, False)])"
proof -
  let ?w = "exec pre (newWebRTCManager cfg)"
  have wf: "wellFormed ?w"
    by (rule wellFormed_exec[OF wellFormed_new])
  have d: "dead (peer c) (removePeer p ?w)"
    by (rule removePeer_kills[OF wf assms])
  have quiet: "filter (\<lambda>(h, r, e). r = peer c \<and> e) (samplerLog (exec after (removePeer p ?w)))
         = filter (\<lambda>(h, r, e). r = peer c \<and> e) (samplerLog ?w)"
    using dead_exec[OF d, of after] by (simp add: emittedBy_def)
  have tick: "map_of (intervals ?w) h = Some (i, peer c) \<Longrightarrow>
            map_of (intervals (samplerTick h (removePeer p ?w))) h = None
          \<and> events (samplerTick h (removePeer p ?w)) = events ?w
          \<and> samplerLog (samplerTick h (removePeer p ?w)) = samplerLog ?w @ [(h, peer c, False)]"
    using d by (simp add: samplerTick_def dead_def AList.delete_conv')
  from quiet tick show ?thesis by simp
qed

text \<open>
  Peer a, connected and then removed, followed by two ticks of its sampler.
\<close>

theorem destroyed_sampler_stops_at_next_tick_witness:
  "map_of (peers (exec [CreatePeer ''a'' True, Connect 0] (newWebRTCManager cfg2))) ''a''
     = Some \<lparr> id' = ''a'', peer = 0, stream = None, isHost = True, peerQuality = ''720p'' \<rparr>
   \<and> map_of (intervals (exec [CreatePeer ''a'' True, Connect 0] (newWebRTCManager cfg2))) 1
       = Some (''a'', 0)
   \<and> intervals (removePeer ''a'' (exec [CreatePeer ''a'' True, Connect 0] (newWebRTCManager cfg2)))
       = [(1, ''a'', 0)]
   \<and> filter (\<lambda>(h, r, e). r = 0 \<and> e)
        (samplerLog (exec [Tick 1, Connect 0, Tick 1]
          (removePeer ''a'' (exec [CreatePeer ''a'' True, Connect 0] (newWebRTCManager cfg2)))))
       = []
   \<and> map_of (intervals (samplerTick 1
        (removePeer ''a'' (exec [CreatePeer ''a'' True, Connect 0] (newWebRTCManager cfg2))))) 1
       = None
   \<and> events (samplerTick 1
        (removePeer ''a'' (exec [CreatePeer ''a'' True, Connect 0] (newWebRTCManager cfg2))))
       = [PeerConnected ''a'']"
proof -
  have h: "map_of (peers (exec [CreatePeer ''a'' True, Connect 0] (newWebRTCManager cfg2))) ''a''
     = Some \<lparr> id' = ''a'', peer = 0, stream = None, isHost = True, peerQuality = ''720p'' \<rparr>"
    by code_simp
  have i: "map_of (intervals (exec [CreatePeer ''a'' True, Connect 0] (newWebRTCManager cfg2))) 1
       = Some (''a'', 0)"
    by code_simp
  have l: "samplerLog (exec [CreatePeer ''a'' True, Connect 0] (newWebRTCManager cfg2)) = []"
    and v: "intervals (exec [CreatePeer ''a'' True, Connect 0] (newWebRTCManager cfg2))
              = [(1, ''a'', 0)]"
    and e: "events (exec [CreatePeer ''a'' True, Connect 0] (newWebRTCManager cfg2))
              = [PeerConnected ''a'']"
    by code_simp+
  from destroyed_sampler_stops_at_next_tick [OF h, of "[Tick 1, Connect 0, Tick 1]" 1 "''a''"]
    h i l v e
  show ?thesis by simp
qed

section \<open>The bandwidth signal\<close>

text \<open>
  C1, as the claim states it, fails: when the report of 300 kbps arrives before the
  report of 2000 kbps, the last value passed to \<open>adjustQuality\<close>, and from there to
  \<open>updateBandwidth\<close>, is 2000, not the minimum 300.
\<close>

theorem worst_link_signal_counterexample:
  "last (adjustQualityCalls (reports [(''B'', [(''bandwidth'', 300)]),
                                      (''A'', [(''bandwidth'', 2000)])] initialPage)) = 2000
   \<and> last (adjustQualityCalls (reports [(''B'', [(''bandwidth'', 300)]),
                                        (''A'', [(''bandwidth'', 2000)])] initialPage))
       \<noteq> Min {2000, 300}"
  by (simp add: renderAfterStats_def onConnectionStatsUpdate_def orElse_def Let_def
        initialPage_def exceeds_def)


text \<open>
  C1, amended. The bandwidth signal is the bandwidth of the latest stats report alone,
  or 1000 when the report has none or has 0, whichever peer sent it; it is passed to
  \<open>adjustQuality\<close> when it differs from the value before and is positive. The report of
  \<open>getConnectionStats\<close> has no bandwidth, so it gives 1000. With two peers reporting
  2000 and 300 kbps the signals are 2000 then 300, or 300 then 2000, in the order of
  the reports.
\<close>

theorem signal_is_last_report:
  "bandwidth (connectionStats (renderAfterStats peerId stats page))
     = (case map_of stats ''bandwidth'' of
          None \<Rightarrow> 1000 | Some b \<Rightarrow> if b = 0 then 1000 else b)
   \<and> adjustQualityCalls (renderAfterStats peerId stats page)
       = (if bandwidth (connectionStats (renderAfterStats peerId stats page))
               \<noteq> bandwidth (connectionStats page)
             \<and> bandwidth (connectionStats (renderAfterStats peerId stats page)) > 0
          then adjustQualityCalls page
                 @ [bandwidth (connectionStats (renderAfterStats peerId stats page))]
          else adjustQualityCalls page)
   \<and> renderAfterStats peerId stats page = renderAfterStats otherPeer stats page
   \<and> bandwidth (onConnectionStatsUpdate peerId getConnectionStats) = 1000
   \<and> adjustQualityCalls (reports [(''A'', [(''bandwidth'', 2000)]),
                                   (''B'', [(''bandwidth'', 300)])] initialPage) = [2000, 300]
   \<and> adjustQualityCalls (reports [(''B'', [(''bandwidth'', 300)]),
                                   (''A'', [(''bandwidth'', 2000)])] initialPage) = [300, 2000]"
  by (simp add: renderAfterStats_def onConnectionStatsUpdate_def orElse_def Let_def
        getConnectionStats_def initialPage_def exceeds_def)

end
